theory Spec2Isabelle
  imports Complex_Main "HOL-Library.Sublist" "HOL-Library.Word"
begin

section \<open>Python values\<close>

text \<open>
  A Python \<open>str\<close> is modelled as an Isabelle \<open>string\<close> (a list of 8-bit characters), so
  the development covers ASCII text: \<open>str.lower\<close> maps \<open>A..Z\<close> to \<open>a..z\<close> and leaves
  every other character alone, and the whitespace of \<open>str.strip\<close> and of the regular
  expression class \<open>\s\<close> is Python's whitespace below code point 256 (tab, line feed,
  vertical tab, form feed, carriage return, the separators 28..31, the space, next line
  0x85 and the no-break space 0xA0).
  A Python \<open>float\<close> is modelled as a \<open>real\<close>: comparisons and \<open>max\<close>/\<open>min\<close> are exact
  on floats, the rounding of \<open>float(...)\<close> and of a division is not modelled.
\<close>

definition lower_char :: "char \<Rightarrow> char" where
  "lower_char c =
     (case map_of (zip ''ABCDEFGHIJKLMNOPQRSTUVWXYZ'' ''abcdefghijklmnopqrstuvwxyz'') c of
        None \<Rightarrow> c
      | Some d \<Rightarrow> d)"

definition str_lower :: "string \<Rightarrow> string" where
  "str_lower s = map lower_char s"

text \<open>\<open>contains s t\<close> is Python's \<open>t in s\<close> on strings: \<open>t\<close> occurs in \<open>s\<close> as a
  contiguous run of characters.\<close>

fun contains :: "string \<Rightarrow> string \<Rightarrow> bool" where
  "contains [] t = (t = [])"
| "contains (c # cs) t = (prefix t (c # cs) \<or> contains cs t)"

text \<open>The same relation, stated without reference to a search procedure.\<close>

definition occurs_in :: "string \<Rightarrow> string \<Rightarrow> bool" where
  "occurs_in t s = (\<exists>before after. s = before @ t @ after)"

section \<open>The context handed to the vision-model client\<close>

text \<open>
  \<open>context: Optional[Dict[str, Any]]\<close>. The client reads the keys \<open>filename\<close> and
  \<open>local_probability\<close> only, and its one caller passes a string and a float under them, so
  the dictionary is modelled by a record of the two optional entries. The empty dictionary
  (both entries absent) is falsy, as \<open>None\<close> is.
\<close>

record analysis_context =
  ctx_filename :: "string option"
  ctx_local_probability :: "real option"

definition context_truthy :: "analysis_context option \<Rightarrow> bool" where
  "context_truthy ctx =
     (case ctx of
        None \<Rightarrow> False
      | Some c \<Rightarrow> ctx_filename c \<noteq> None \<or> ctx_local_probability c \<noteq> None)"

text \<open>\<open>float(context.get("local_probability", 0.0))\<close>\<close>

definition get_local_probability :: "analysis_context \<Rightarrow> real" where
  "get_local_probability c = (case ctx_local_probability c of None \<Rightarrow> 0 | Some p \<Rightarrow> p)"

text \<open>\<open>bool(context and float(context.get("local_probability", 0.0)) >= 0.5)\<close>\<close>

definition context_probability_high :: "analysis_context option \<Rightarrow> bool" where
  "context_probability_high ctx =
     (case ctx of
        None \<Rightarrow> False
      | Some c \<Rightarrow> context_truthy ctx \<and> get_local_probability c \<ge> 0.5)"

text \<open>The local heuristic probability a context carries, if any.\<close>

definition local_probability_of :: "analysis_context option \<Rightarrow> real option" where
  "local_probability_of ctx = (case ctx of None \<Rightarrow> None | Some c \<Rightarrow> ctx_local_probability c)"

section \<open>Fire-detected inference (\<open>DashScopeClient._infer_fire_detection\<close>)\<close>

definition negative_tokens :: "string list" where
  "negative_tokens =
     [''no fire'', ''no visible fire'', ''absence of fire'', ''unlikely'', ''not detected'',
      ''no smoke'', ''no flames'', ''no sign of fire'', ''no obvious fire'']"

definition affirmative_tokens :: "string list" where
  "affirmative_tokens = [''fire'', ''flame'', ''smoke'', ''burn'', ''blaze'', ''ignition'']"

definition infer_fire_detection :: "string \<Rightarrow> analysis_context option \<Rightarrow> real option \<Rightarrow> bool" where
  "infer_fire_detection summary ctx confidence =
     (if summary = [] then
        (case confidence of None \<Rightarrow> 0 | Some c \<Rightarrow> c) \<ge> 0.5 \<or> context_probability_high ctx
      else
        let txt = str_lower summary in
        if list_ex (\<lambda>token. contains txt token) negative_tokens then False
        else if list_ex (\<lambda>token. contains txt token) affirmative_tokens then
          (if list_ex (\<lambda>token. contains txt (''no '' @ token)) affirmative_tokens
           then False else True)
        else
          (case confidence of
             Some c \<Rightarrow> c \<ge> 0.5
           | None \<Rightarrow> if context_probability_high ctx then True else False))"

subsection \<open>The precedence as the specification words it\<close>

definition spec_negative_phrases :: "string set" where
  "spec_negative_phrases =
     {''no fire'', ''no visible fire'', ''absence of fire'', ''unlikely'', ''not detected'',
      ''no smoke'', ''no flames'', ''no sign of fire'', ''no obvious fire''}"

definition spec_affirmative_tokens :: "string set" where
  "spec_affirmative_tokens = {''fire'', ''flame'', ''smoke'', ''burn'', ''blaze'', ''ignition''}"

text \<open>Steps (b) to (f), shared by the two readings of step (a) below.\<close>

definition spec_infer_nonempty :: "string \<Rightarrow> real option \<Rightarrow> real option \<Rightarrow> bool" where
  "spec_infer_nonempty summary confidence local =
     (if \<exists>phrase \<in> spec_negative_phrases. occurs_in phrase (str_lower summary) then False
      else if \<exists>token \<in> spec_affirmative_tokens. occurs_in token (str_lower summary) then
        \<not> (\<exists>token \<in> spec_affirmative_tokens. occurs_in (''no '' @ token) (str_lower summary))
      else
        (case confidence of
           Some c \<Rightarrow> c \<ge> 0.5
         | None \<Rightarrow> (case local of Some p \<Rightarrow> p \<ge> 0.5 | None \<Rightarrow> False)))"

text \<open>Step (a) as a precedence: a known confidence decides, the local probability is
  consulted only when the confidence is unknown.\<close>

definition spec_infer_precedence :: "string \<Rightarrow> real option \<Rightarrow> real option \<Rightarrow> bool" where
  "spec_infer_precedence summary confidence local =
     (if summary = [] then
        (case confidence of
           Some c \<Rightarrow> c \<ge> 0.5
         | None \<Rightarrow> (case local of Some p \<Rightarrow> p \<ge> 0.5 | None \<Rightarrow> False))
      else spec_infer_nonempty summary confidence local)"

text \<open>Step (a) as a disjunction: either signal at or above one half suffices.\<close>

definition spec_infer_either :: "string \<Rightarrow> real option \<Rightarrow> real option \<Rightarrow> bool" where
  "spec_infer_either summary confidence local =
     (if summary = [] then
        (case confidence of Some c \<Rightarrow> c \<ge> 0.5 | None \<Rightarrow> False)
        \<or> (case local of Some p \<Rightarrow> p \<ge> 0.5 | None \<Rightarrow> False)
      else spec_infer_nonempty summary confidence local)"

section \<open>Confidence extraction (\<open>DashScopeClient._extract_confidence\<close>)\<close>

definition is_space :: "char \<Rightarrow> bool" where
  "is_space c =
     (c \<in> set [CHR 0x09, CHR 0x0A, CHR 0x0B, CHR 0x0C, CHR 0x0D,
                CHR 0x1C, CHR 0x1D, CHR 0x1E, CHR 0x1F, CHR '' '', CHR 0x85, CHR 0xA0])"

definition is_digit :: "char \<Rightarrow> bool" where
  "is_digit c = (c \<in> set ''0123456789'')"

text \<open>\<open>str.strip()\<close> and \<open>str.endswith\<close>\<close>

definition str_strip :: "string \<Rightarrow> string" where
  "str_strip s = rev (dropWhile is_space (rev (dropWhile is_space s)))"

definition endswith :: "string \<Rightarrow> string \<Rightarrow> bool" where
  "endswith s t = (length t \<le> length s \<and> drop (length s - length t) s = t)"

text \<open>
  \<open>float(...)\<close> on a string of the shape \<open>\d+(?:\.\d+)?\<close>, the only shape the pattern's
  second group has: the decimal value of the integer digits plus that of the fraction digits.
\<close>

definition digit_value :: "char \<Rightarrow> nat" where
  "digit_value c = of_char c - 48"

definition digits_value :: "string \<Rightarrow> nat" where
  "digits_value ds = foldl (\<lambda>n c. 10 * n + digit_value c) 0 ds"

definition decimal_value :: "string \<Rightarrow> string \<Rightarrow> real" where
  "decimal_value ip fd = real (digits_value ip) + real (digits_value fd) / 10 ^ length fd"

definition py_float :: "string \<Rightarrow> real" where
  "py_float s =
     (let ip = takeWhile is_digit s in decimal_value ip (drop (Suc (length ip)) s))"

text \<open>
  The compiled pattern
  \<open>(confidence|probability|likelihood)\s*[:=]\s*(\d+(?:\.\d+)?)%?\<close> with \<open>re.IGNORECASE\<close>.
  A match attempt at a fixed position has no choice to make: the three keywords begin with
  different letters; a greedy \<open>\s*\<close> can give nothing back to \<open>[:=]\<close> or \<open>\d\<close>, which
  are not whitespace; and everything after the first \<open>\d+\<close> is optional, so the greedy
  quantifiers keep all they take. \<open>match_keyword\<close> is the first group with the text
  after it (a letter of the text matches a letter of the keyword when its lower case does),
  \<open>match_number\<close> the second group with the text after it, and
  \<open>pattern_match_at\<close> returns \<open>(group(0), group(2))\<close>.
\<close>

definition confidence_keywords :: "string list" where
  "confidence_keywords = [''confidence'', ''probability'', ''likelihood'']"

definition match_number :: "string \<Rightarrow> (string \<times> string) option" where
  "match_number s =
     (let ip = takeWhile is_digit s; r = dropWhile is_digit s in
      if ip = [] then None
      else
        (case r of
           [] \<Rightarrow> Some (ip, r)
         | c # r' \<Rightarrow>
             if c = CHR ''.'' \<and> takeWhile is_digit r' \<noteq> []
             then Some (ip @ [c] @ takeWhile is_digit r', dropWhile is_digit r')
             else Some (ip, r)))"

definition match_percent :: "string \<Rightarrow> string" where
  "match_percent r = (case r of [] \<Rightarrow> [] | c # _ \<Rightarrow> if c = CHR ''%'' then [c] else [])"

definition match_keyword :: "string \<Rightarrow> (string \<times> string) option" where
  "match_keyword s =
     (case find (\<lambda>k. prefix k (str_lower s)) confidence_keywords of
        None \<Rightarrow> None
      | Some k \<Rightarrow> Some (take (length k) s, drop (length k) s))"

definition pattern_match_at :: "string \<Rightarrow> (string \<times> string) option" where
  "pattern_match_at s =
     (case match_keyword s of
        None \<Rightarrow> None
      | Some (kw, r1) \<Rightarrow>
          let ws1 = takeWhile is_space r1;
              r2 = dropWhile is_space r1
          in
            (case r2 of
               [] \<Rightarrow> None
             | sep # r3 \<Rightarrow>
                 if sep \<noteq> CHR '':'' \<and> sep \<noteq> CHR ''='' then None
                 else
                   let ws2 = takeWhile is_space r3;
                       r4 = dropWhile is_space r3
                   in
                     (case match_number r4 of
                        None \<Rightarrow> None
                      | Some (num, r5) \<Rightarrow>
                          Some (kw @ ws1 @ [sep] @ ws2 @ num @ match_percent r5, num))))"

text \<open>\<open>pattern.search(summary)\<close>: the match at the leftmost position that has one.\<close>

fun pattern_search :: "string \<Rightarrow> (string \<times> string) option" where
  "pattern_search [] = pattern_match_at []"
| "pattern_search (c # cs) =
     (case pattern_match_at (c # cs) of
        Some m \<Rightarrow> Some m
      | None \<Rightarrow> pattern_search cs)"

definition extract_confidence :: "string \<Rightarrow> real option" where
  "extract_confidence summary =
     (if summary = [] then None
      else
        (case pattern_search summary of
           None \<Rightarrow> None
         | Some (group0, group2) \<Rightarrow>
             let v = py_float group2 in
             if endswith (str_strip group0) ''%'' \<and> v > 1
             then Some (max 0 (min 100 v) / 100)
             else Some (max 0 (min 1 v))))"

subsection \<open>Confidence extraction as the specification words it\<close>









section \<open>Summary extraction (\<open>DashScopeClient._extract_summary\<close>)\<close>

text \<open>
  The payload is whatever \<open>response.json()\<close> returned: any JSON value. A dictionary is an
  association list read with \<open>map_of\<close> (a parsed object has each key once). Python's
  built-in \<open>str\<close> on a value that is not a string (its rendering of \<open>None\<close>, booleans,
  numbers, lists and dictionaries) is a parameter \<open>py_str\<close>.
\<close>

datatype json =
    JNull
  | JBool bool
  | JNum real
  | JStr string
  | JArr "json list"
  | JObj "(string \<times> json) list"

text \<open>The exceptions the modelled code can meet. All but \<open>KeyboardInterrupt\<close> derive
  from \<open>Exception\<close>.\<close>

datatype py_exception =
    AttributeError
  | TypeError
  | KeyError
  | IndexError
  | ZeroDivisionError
  | KeyboardInterrupt

definition is_Exception :: "py_exception \<Rightarrow> bool" where
  "is_Exception e = (e \<noteq> KeyboardInterrupt)"

fun truthy :: "json \<Rightarrow> bool" where
  "truthy JNull = False"
| "truthy (JBool b) = b"
| "truthy (JNum x) = (x \<noteq> 0)"
| "truthy (JStr s) = (s \<noteq> [])"
| "truthy (JArr xs) = (xs \<noteq> [])"
| "truthy (JObj kvs) = (kvs \<noteq> [])"

text \<open>\<open>d.get(k, default)\<close> on a dictionary, and on any value (\<open>AttributeError\<close> unless
  it is a dictionary).\<close>

definition dict_get :: "(string \<times> json) list \<Rightarrow> string \<Rightarrow> json \<Rightarrow> json" where
  "dict_get d k dflt = (case map_of d k of None \<Rightarrow> dflt | Some v \<Rightarrow> v)"

fun attr_get :: "json \<Rightarrow> string \<Rightarrow> json \<Rightarrow> py_exception + json" where
  "attr_get (JObj d) k dflt = Inr (dict_get d k dflt)"
| "attr_get _ k dflt = Inl AttributeError"

text \<open>\<open>x[0]\<close>: the first element of a list, the first character of a string; a
  dictionary of a parsed object has no key \<open>0\<close>; nothing else can be subscripted. It is
  only evaluated on truthy values.\<close>

fun subscript0 :: "json \<Rightarrow> py_exception + json" where
  "subscript0 (JArr (x # xs)) = Inr x"
| "subscript0 (JArr []) = Inl IndexError"
| "subscript0 (JStr (c # cs)) = Inr (JStr [c])"
| "subscript0 (JStr []) = Inl IndexError"
| "subscript0 (JObj d) = Inl KeyError"
| "subscript0 _ = Inl TypeError"

text \<open>\<open>"\n".join(...)\<close>\<close>

fun join_lines :: "string list \<Rightarrow> string" where
  "join_lines [] = []"
| "join_lines [x] = x"
| "join_lines (x # y # zs) = x @ [CHR 0x0A] @ join_lines (y # zs)"

text \<open>\<open>map(str.strip, texts)\<close>, consumed by \<open>join\<close>: \<open>str.strip\<close> applied to a value
  that is not a string raises \<open>TypeError\<close>.\<close>

fun strip_each :: "json list \<Rightarrow> py_exception + string list" where
  "strip_each [] = Inr []"
| "strip_each (JStr s # vs) =
     (case strip_each vs of Inl e \<Rightarrow> Inl e | Inr ss \<Rightarrow> Inr (str_strip s # ss))"
| "strip_each (_ # vs) = Inl TypeError"

text \<open>\<open>str(v)\<close>\<close>

definition str_of :: "(json \<Rightarrow> string) \<Rightarrow> json \<Rightarrow> string" where
  "str_of py_str v = (case v of JStr s \<Rightarrow> s | _ \<Rightarrow> py_str v)"

definition is_dict :: "json \<Rightarrow> bool" where
  "is_dict v = (case v of JObj d \<Rightarrow> True | _ \<Rightarrow> False)"

text \<open>\<open>[block.get("text", "") for block in content
          if isinstance(block, dict) and block.get("type") == "text"]\<close>\<close>

definition text_block_values :: "json list \<Rightarrow> json list" where
  "text_block_values blocks =
     concat (map (\<lambda>block.
        case block of
          JObj d \<Rightarrow> if dict_get d ''type'' JNull = JStr ''text''
                    then [dict_get d ''text'' (JStr [])] else []
        | _ \<Rightarrow> []) blocks)"

text \<open>The fallback: the non-dictionary entries, stringified, the empty ones dropped.\<close>

definition fallback_lines :: "(json \<Rightarrow> string) \<Rightarrow> json list \<Rightarrow> string list" where
  "fallback_lines py_str blocks =
     filter (\<lambda>s. s \<noteq> []) (map (str_of py_str) (filter (\<lambda>block. \<not> is_dict block) blocks))"

text \<open>The body of the \<open>try\<close> block, including the \<open>return ""\<close> it falls through to.\<close>

definition extract_summary_body :: "(json \<Rightarrow> string) \<Rightarrow> json \<Rightarrow> py_exception + string" where
  "extract_summary_body py_str payload =
     (case attr_get payload ''choices'' JNull of
        Inl e \<Rightarrow> Inl e
      | Inr choices \<Rightarrow>
          if \<not> truthy choices then Inr []
          else
            (case subscript0 choices of
               Inl e \<Rightarrow> Inl e
             | Inr first_choice \<Rightarrow>
                 (case attr_get first_choice ''message'' (JObj []) of
                    Inl e \<Rightarrow> Inl e
                  | Inr message \<Rightarrow>
                      (case attr_get message ''content'' JNull of
                         Inl e \<Rightarrow> Inl e
                       | Inr content \<Rightarrow>
                           (case content of
                              JStr s \<Rightarrow> Inr (str_strip s)
                            | JArr blocks \<Rightarrow>
                                (case strip_each (text_block_values blocks) of
                                   Inl e \<Rightarrow> Inl e
                                 | Inr stripped \<Rightarrow>
                                     let joined = join_lines (filter (\<lambda>s. s \<noteq> []) stripped)
                                     in if joined \<noteq> [] then Inr joined
                                        else Inr (str_strip
                                                   (join_lines (fallback_lines py_str blocks))))
                            | _ \<Rightarrow>
                                if truthy content then Inr (str_of py_str content)
                                else Inr [])))))"

text \<open>\<open>try: ... except Exception: (log)\<close> followed by \<open>return ""\<close>: an exception that
  derives from \<open>Exception\<close> is caught, any other would propagate.\<close>

definition extract_summary :: "(json \<Rightarrow> string) \<Rightarrow> json \<Rightarrow> py_exception + string" where
  "extract_summary py_str payload =
     (case extract_summary_body py_str payload of
        Inl e \<Rightarrow> if is_Exception e then Inr [] else Inl e
      | Inr s \<Rightarrow> Inr s)"

subsection \<open>The shapes of a payload, as the specification names them\<close>



section \<open>Errors (\<open>exceptions.py\<close>)\<close>

text \<open>
  The four error classes of the API. The message of an error is represented by the site
  that raises it, with the values the message is formatted from; an
  \<open>ExternalServiceError\<close> also carries its \<open>details\<close>. \<open>Unhandled\<close> is a fault outside
  the taxonomy, which propagates unchanged.
\<close>

datatype validation_reason =
    NoImages
  | TooFewImages int
  | TooManyImages int
  | InvalidFilename
  | UnsupportedType string
  | EmptyImage string
  | ImageTooLarge string int

datatype processing_reason =
    ReadFailed string
  | DecodeFailed string

datatype service_reason =
    ConnectFailed
  | HttpStatus int
  | ParseFailed
  | UnexpectedError

datatype configuration_reason =
    EndpointMissing
  | ApiKeyMissing

datatype api_error =
    ValidationError validation_reason
  | ImageProcessingError processing_reason
  | ExternalServiceError service_reason "(string \<times> string) list"
  | ConfigurationError configuration_reason
  | Unhandled py_exception

section \<open>Formatting a float with one decimal (\<open>{:.1f}\<close>)\<close>

text \<open>
  The format rounds to the nearest tenth, ties to the even neighbour, and prints the sign,
  the integer digits, a point and one digit. It acts here on the real number; the float
  nearest to a decimal numeral can fall on the other side of a tie.
\<close>

definition digit_char :: "nat \<Rightarrow> char" where
  "digit_char d = ''0123456789'' ! d"

function show_nat :: "nat \<Rightarrow> string" where
  "show_nat n = (if n < 10 then [digit_char n] else show_nat (n div 10) @ [digit_char (n mod 10)])"
  by pat_completeness auto
termination
  by (relation "measure id") auto

declare show_nat.simps [simp del]

definition round_half_even :: "real \<Rightarrow> int" where
  "round_half_even y =
     (let f = \<lfloor>y\<rfloor>; r = y - of_int f in
      if r < 1 / 2 then f
      else if r > 1 / 2 then f + 1
      else if even f then f else f + 1)"

definition format_1f :: "real \<Rightarrow> string" where
  "format_1f x =
     (let n = nat (round_half_even (\<bar>x\<bar> * 10)) in
      (if x < 0 then ''-'' else []) @ show_nat (n div 10) @ ''.'' @ show_nat (n mod 10))"

section \<open>The vision-model client (\<open>DashScopeClient\<close>)\<close>

text \<open>The fields of \<open>Settings\<close> that the modelled code reads.\<close>

record settings =
  max_content_length :: int
  allowed_mime_types :: "string set"
  max_images_per_request :: int
  min_images_per_request :: int
  dashscope_api_key :: "string option"
  dashscope_model :: string
  dashscope_endpoint :: string
  dashscope_timeout :: "int \<times> int"
  dashscope_force_mock :: bool
  analysis_prompt :: string

record client =
  client_api_key :: "string option"
  client_endpoint :: string
  client_model :: string
  client_timeout :: "int \<times> int"
  client_force_mock :: bool
  client_analysis_prompt :: string

text \<open>\<open>DashScopeClient.__init__\<close>\<close>

definition new_client :: "settings \<Rightarrow> api_error + client" where
  "new_client st =
     (if dashscope_endpoint st = [] then Inl (ConfigurationError EndpointMissing)
      else Inr \<lparr>client_api_key = dashscope_api_key st,
                client_endpoint = dashscope_endpoint st,
                client_model = dashscope_model st,
                client_timeout = dashscope_timeout st,
                client_force_mock = dashscope_force_mock st,
                client_analysis_prompt = analysis_prompt st\<rparr>)"

text \<open>\<open>not self._api_key\<close>: the key is \<open>None\<close> or the empty string.\<close>

definition api_key_missing :: "client \<Rightarrow> bool" where
  "api_key_missing c = (case client_api_key c of None \<Rightarrow> True | Some k \<Rightarrow> k = [])"

record dashscope_result =
  res_summary :: string
  res_fire_detected :: bool
  res_confidence :: "real option"
  res_raw_response :: json

text \<open>
  The injected transport. A request is what \<open>session.post\<close> receives; its outcome is a
  \<open>requests.RequestException\<close> or a response with its status code, its text and what
  \<open>response.json()\<close> returns (\<open>None\<close> when it raises \<open>JSONDecodeError\<close>). The client
  returns, beside its result, the list of the requests it posted.
\<close>

record http_request =
  http_url :: string
  http_headers :: "(string \<times> string) list"
  http_json :: json
  http_timeout :: "int \<times> int"

datatype http_outcome =
    RequestException string
  | Response int string "json option"

text \<open>\<open>DashScopeClient._mock_response\<close>\<close>

definition mock_response :: "analysis_context option \<Rightarrow> dashscope_result" where
  "mock_response ctx =
     (let local_probability =
            (case ctx of
               None \<Rightarrow> 0
             | Some c \<Rightarrow> if context_truthy ctx then get_local_probability c else 0);
          fire_detected = (local_probability \<ge> 0.5)
      in \<lparr>res_summary =
              ''[Mock] Local heuristic indicates a '' @ format_1f (local_probability * 100)
              @ ''% probability of visible fire or smoke. ''
              @ ''No external analysis was performed.'',
            res_fire_detected = fire_detected,
            res_confidence = (if fire_detected then Some local_probability else None),
            res_raw_response =
              JObj [(''mock'', JBool True),
                    (''local_probability'', JNum local_probability),
                    (''note'', JStr ''DashScope mock mode is enabled (no API key configured).'')]\<rparr>)"

text \<open>\<open>DashScopeClient._build_messages\<close>\<close>

definition context_lines :: "analysis_context option \<Rightarrow> string list" where
  "context_lines ctx =
     (case ctx of
        None \<Rightarrow> []
      | Some c \<Rightarrow>
          if \<not> context_truthy ctx then []
          else
            (case ctx_filename c of
               None \<Rightarrow> []
             | Some name \<Rightarrow> if name = [] then [] else [''Filename: '' @ name])
            @ (case ctx_local_probability c of
                 None \<Rightarrow> []
               | Some p \<Rightarrow>
                   [''Local heuristic fire probability: '' @ format_1f (p * 100) @ ''%'']))"

definition build_messages :: "client \<Rightarrow> string \<Rightarrow> analysis_context option \<Rightarrow> json list" where
  "build_messages c data_url ctx =
     (let user_prompt =
            (if context_lines ctx \<noteq> [] then join_lines (context_lines ctx)
             else ''Please analyse the attached forest scene for early signs of smoke, flame, ''
                  @ ''or smouldering. Summarise the risk level and key observations.'')
      in [JObj [(''role'', JStr ''system''),
                (''content'',
                 JArr [JObj [(''type'', JStr ''text''),
                             (''text'', JStr (client_analysis_prompt c))]])],
          JObj [(''role'', JStr ''user''),
                (''content'',
                 JArr [JObj [(''type'', JStr ''text''), (''text'', JStr user_prompt)],
                       JObj [(''type'', JStr ''image_url''),
                             (''image_url'', JObj [(''url'', JStr data_url)])]])]])"

text \<open>
  \<open>DashScopeClient.analyze_image\<close>. \<open>post\<close> is the session's \<open>post\<close>, \<open>b64encode\<close> the
  base64 encoder, \<open>py_str\<close> the built-in \<open>str\<close>. Logging is left out.
\<close>

definition analyze_image ::
  "(http_request \<Rightarrow> http_outcome) \<Rightarrow> (8 word list \<Rightarrow> string) \<Rightarrow> (json \<Rightarrow> string) \<Rightarrow> client
     \<Rightarrow> 8 word list \<Rightarrow> string \<Rightarrow> string \<Rightarrow> analysis_context option
     \<Rightarrow> http_request list \<times> (api_error + dashscope_result)" where
  "analyze_image post b64encode py_str c image_bytes image_format request_id ctx =
     (if api_key_missing c \<and> \<not> client_force_mock c then
        ([], Inl (ConfigurationError ApiKeyMissing))
      else if client_force_mock c \<or> api_key_missing c then
        ([], Inr (mock_response ctx))
      else
        let encoded_image = b64encode image_bytes;
            data_url = ''data:image/'' @ (if image_format = [] then ''jpeg'' else image_format)
                       @ '';base64,'' @ encoded_image;
            messages = build_messages c data_url ctx;
            payload = JObj [(''model'', JStr (client_model c)), (''messages'', JArr messages)];
            headers = [(''Authorization'',
                        ''Bearer '' @ (case client_api_key c of None \<Rightarrow> [] | Some k \<Rightarrow> k)),
                       (''Content-Type'', ''application/json'')];
            req = \<lparr>http_url = client_endpoint c, http_headers = headers,
                    http_json = payload, http_timeout = client_timeout c\<rparr>
        in
          (case post req of
             RequestException msg \<Rightarrow>
               ([req], Inl (ExternalServiceError ConnectFailed
                              [(''request_id'', request_id), (''error'', msg)]))
           | Response status_code body body_json \<Rightarrow>
               if status_code \<ge> 400 then
                 ([req], Inl (ExternalServiceError (HttpStatus status_code)
                                [(''body'', take 600 body), (''request_id'', request_id)]))
               else
                 (case body_json of
                    None \<Rightarrow>
                      ([req], Inl (ExternalServiceError ParseFailed
                                     [(''body'', take 600 body), (''request_id'', request_id)]))
                  | Some payload_json \<Rightarrow>
                      (case extract_summary py_str payload_json of
                         Inl e \<Rightarrow> ([req], Inl (Unhandled e))
                       | Inr summary \<Rightarrow>
                           let confidence = extract_confidence summary;
                               fire_detected = infer_fire_detection summary ctx confidence
                           in ([req],
                               Inr \<lparr>res_summary =
                                       (if summary = []
                                        then ''DashScope analysis completed without textual summary.''
                                        else summary),
                                     res_fire_detected = fire_detected,
                                     res_confidence = confidence,
                                     res_raw_response = payload_json\<rparr>)))))"

text \<open>Mock mode as the specification words it: it "auto-activates when no credential
  is configured, or when explicitly forced".\<close>

definition mock_mode_active :: "client \<Rightarrow> bool" where
  "mock_mode_active c = (client_force_mock c \<or> api_key_missing c)"

section \<open>Images and the local heuristics (\<open>image_processing.py\<close>)\<close>

text \<open>
  A decoded image is its format, as the decoder reports it, and its rows of RGB pixels with
  8-bit channels. \<open>np.asarray\<close> of an RGB image is an array of shape
  \<open>(height, width, 3)\<close>; an array of any other shape is \<open>OtherArray\<close>.
  \<open>cv2.cvtColor(array, cv2.COLOR_RGB2HSV)\<close> acts on each pixel by a function \<open>cvt\<close>,
  a parameter. \<open>np.mean\<close> and \<open>np.std\<close> are taken on the reals.
\<close>

type_synonym rgb = "8 word \<times> 8 word \<times> 8 word"
type_synonym hsv = "8 word \<times> 8 word \<times> 8 word"

record pil_image =
  img_format :: "string option"
  img_rows :: "rgb list list"

datatype ndarray =
    RGBArray "rgb list list"
  | OtherArray

definition hue :: "hsv \<Rightarrow> nat" where
  "hue p = (case p of (h, s, v) \<Rightarrow> unat h)"

definition saturation :: "hsv \<Rightarrow> nat" where
  "saturation p = (case p of (h, s, v) \<Rightarrow> unat s)"

definition brightness :: "hsv \<Rightarrow> nat" where
  "brightness p = (case p of (h, s, v) \<Rightarrow> unat v)"

text \<open>\<open>xs[::f]\<close> for a step \<open>f\<close> of at least one: the elements at the positions
  \<open>0, f, 2f, ...\<close>\<close>

fun stride :: "nat \<Rightarrow> 'a list \<Rightarrow> 'a list" where
  "stride f [] = []"
| "stride f (x # xs) = x # stride f (drop (f - 1) xs)"

definition array_height :: "rgb list list \<Rightarrow> nat" where
  "array_height rows = length rows"

definition array_width :: "rgb list list \<Rightarrow> nat" where
  "array_width rows = (case rows of [] \<Rightarrow> 0 | r # _ \<Rightarrow> length r)"

text \<open>The down-sampling both heuristics start with, for the limit 512 or 640.\<close>

definition downsample :: "nat \<Rightarrow> rgb list list \<Rightarrow> rgb list list" where
  "downsample limit rows =
     (if array_height rows > limit \<or> array_width rows > limit then
        let sampling_factor =
              max (max (array_height rows div limit) (array_width rows div limit)) 1
        in map (stride sampling_factor) (stride sampling_factor rows)
      else rows)"

definition np_mean :: "nat list \<Rightarrow> real" where
  "np_mean xs = real (sum_list xs) / real (length xs)"

definition np_std :: "nat list \<Rightarrow> real" where
  "np_std xs =
     sqrt (sum_list (map (\<lambda>x. (real x - np_mean xs)\<^sup>2) xs) / real (length xs))"

text \<open>
  \<open>detect_thermal\<close>. On an array without pixels \<open>np.mean\<close> and \<open>np.std\<close> return
  \<open>nan\<close> and the division \<open>unique_colors / float(0)\<close> raises.
\<close>

definition detect_thermal :: "(rgb \<Rightarrow> hsv) \<Rightarrow> ndarray \<Rightarrow> py_exception + bool" where
  "detect_thermal cvt array =
     (case array of
        OtherArray \<Rightarrow> Inr True
      | RGBArray rows \<Rightarrow>
          let sampled = downsample 512 rows;
              flattened = concat sampled;
              pixels_hsv = map cvt flattened
          in if flattened = [] then Inl ZeroDivisionError
             else
               let saturation_mean = np_mean (map saturation pixels_hsv);
                   value_std = np_std (map brightness pixels_hsv);
                   unique_colors = length (remdups flattened);
                   unique_ratio = real unique_colors / real (length flattened)
               in Inr (saturation_mean < 25 \<or> value_std < 18 \<or> unique_ratio < 0.08))"

text \<open>
  \<open>estimate_fire_probability\<close>. \<open>cv2.inRange\<close> includes both bounds. On an array
  without pixels the mean is \<open>nan\<close>, which \<open>min(1.0, nan)\<close> turns into 1.0;
  \<open>prepare_image\<close> never gets there, \<open>detect_thermal\<close> has raised before.
\<close>

definition in_red_range :: "hsv \<Rightarrow> bool" where
  "in_red_range p =
     ((hue p \<le> 15 \<or> (160 \<le> hue p \<and> hue p \<le> 179))
      \<and> 70 \<le> saturation p \<and> 80 \<le> brightness p)"

definition estimate_fire_probability :: "(rgb \<Rightarrow> hsv) \<Rightarrow> ndarray \<Rightarrow> real" where
  "estimate_fire_probability cvt array =
     (case array of
        OtherArray \<Rightarrow> 0
      | RGBArray rows \<Rightarrow>
          let pixels_hsv = map cvt (concat (downsample 640 rows));
              size = length pixels_hsv
          in if size = 0 then 1
             else
               let red_ratio = real (length (filter in_red_range pixels_hsv)) / real size;
                   brightness_mean = np_mean (map brightness pixels_hsv) / 255
               in max 0 (min 1 (0.65 * red_ratio + 0.35 * brightness_mean)))"

subsection \<open>The thermal criteria as the specification words them\<close>

definition mean_saturation :: "(rgb \<Rightarrow> hsv) \<Rightarrow> rgb list \<Rightarrow> real" where
  "mean_saturation cvt grid = (\<Sum>p\<leftarrow>grid. real (saturation (cvt p))) / real (length grid)"

definition mean_value :: "(rgb \<Rightarrow> hsv) \<Rightarrow> rgb list \<Rightarrow> real" where
  "mean_value cvt grid = (\<Sum>p\<leftarrow>grid. real (brightness (cvt p))) / real (length grid)"

definition value_deviation :: "(rgb \<Rightarrow> hsv) \<Rightarrow> rgb list \<Rightarrow> real" where
  "value_deviation cvt grid =
     sqrt ((\<Sum>p\<leftarrow>grid. (real (brightness (cvt p)) - mean_value cvt grid)\<^sup>2)
           / real (length grid))"

definition distinct_color_ratio :: "rgb list \<Rightarrow> real" where
  "distinct_color_ratio grid = real (card (set grid)) / real (length grid)"


definition desaturated :: "rgb \<Rightarrow> bool" where
  "desaturated p = (case p of (r, g, b) \<Rightarrow> r = g \<and> g = b)"

text \<open>What the parameter \<open>cvt\<close> is assumed to do with a grey pixel, as the RGB to HSV
  conversion does: its saturation is zero.\<close>

definition grey_unsaturated :: "(rgb \<Rightarrow> hsv) \<Rightarrow> bool" where
  "grey_unsaturated cvt = (\<forall>c. saturation (cvt (c, c, c)) = 0)"

section \<open>Image intake (\<open>prepare_image\<close>)\<close>

text \<open>
  An upload is a \<open>FileStorage\<close>: its declared filename (possibly absent), its declared
  MIME type (empty when absent) and what \<open>read()\<close> returns (\<open>None\<close> when it raises).
  \<open>secure_filename\<close> (werkzeug) and the decoder (\<open>Image.open\<close>, \<open>load\<close> and
  \<open>convert("RGB")\<close>; \<open>None\<close> when it raises \<open>UnidentifiedImageError\<close> or
  \<open>OSError\<close>) are parameters. The function returns, beside its result, what it did
  with the upload's bytes.
\<close>

record upload =
  up_filename :: "string option"
  up_mimetype :: string
  up_content :: "8 word list option"

datatype io_action =
    ReadBytes
  | DecodeImage

record prepared_image =
  prep_filename :: string
  prep_content_type :: string
  prep_image_format :: string
  prep_width :: nat
  prep_height :: nat
  prep_image :: pil_image
  prep_raw_bytes :: "8 word list"
  prep_is_thermal :: bool
  prep_fire_probability :: real

text \<open>\<open>file_storage.filename or "image.jpg"\<close>\<close>

definition declared_filename :: "upload \<Rightarrow> string" where
  "declared_filename file_storage =
     (case up_filename file_storage of
        None \<Rightarrow> ''image.jpg''
      | Some name \<Rightarrow> if name = [] then ''image.jpg'' else name)"

text \<open>\<open>content_type.split("/")[-1]\<close>\<close>

definition last_segment :: "string \<Rightarrow> string" where
  "last_segment s = rev (takeWhile (\<lambda>c. c \<noteq> CHR ''/'') (rev s))"

definition prepare_image ::
  "(string \<Rightarrow> string) \<Rightarrow> (8 word list \<Rightarrow> pil_image option) \<Rightarrow> (rgb \<Rightarrow> hsv)
     \<Rightarrow> upload \<Rightarrow> string set \<Rightarrow> int \<Rightarrow> io_action list \<times> (api_error + prepared_image)" where
  "prepare_image secure_filename image_open cvt file_storage allowed max_length =
     (let filename = secure_filename (declared_filename file_storage) in
      if filename = [] then ([], Inl (ValidationError InvalidFilename))
      else
        let content_type = str_lower (up_mimetype file_storage) in
        if content_type \<noteq> [] \<and> content_type \<notin> allowed then
          ([], Inl (ValidationError (UnsupportedType content_type)))
        else
          (case up_content file_storage of
             None \<Rightarrow> ([ReadBytes], Inl (ImageProcessingError (ReadFailed filename)))
           | Some raw_bytes \<Rightarrow>
               if raw_bytes = [] then
                 ([ReadBytes], Inl (ValidationError (EmptyImage filename)))
               else if int (length raw_bytes) > max_length then
                 ([ReadBytes], Inl (ValidationError (ImageTooLarge filename max_length)))
               else
                 (case image_open raw_bytes of
                    None \<Rightarrow>
                      ([ReadBytes, DecodeImage],
                       Inl (ImageProcessingError (DecodeFailed filename)))
                  | Some img \<Rightarrow>
                      let from_type =
                            (if last_segment content_type \<noteq> [] then last_segment content_type
                             else ''jpeg'');
                          image_format =
                            str_lower
                              (case img_format img of
                                 None \<Rightarrow> from_type
                               | Some f \<Rightarrow> if f \<noteq> [] then f else from_type);
                          array = RGBArray (img_rows img)
                      in
                        (case detect_thermal cvt array of
                           Inl e \<Rightarrow> ([ReadBytes, DecodeImage], Inl (Unhandled e))
                         | Inr is_thermal \<Rightarrow>
                             ([ReadBytes, DecodeImage],
                              Inr \<lparr>prep_filename = filename,
                                    prep_content_type =
                                      (if content_type \<noteq> [] then content_type
                                       else ''image/'' @ image_format),
                                    prep_image_format = image_format,
                                    prep_width = array_width (img_rows img),
                                    prep_height = array_height (img_rows img),
                                    prep_image = img,
                                    prep_raw_bytes = raw_bytes,
                                    prep_is_thermal = is_thermal,
                                    prep_fire_probability =
                                      estimate_fire_probability cvt array\<rparr>)))))"

section \<open>Annotation (\<open>annotate_image\<close>)\<close>

text \<open>The banner text and colour are computed here; drawing them on a copy of the image
  is the parameter \<open>draw_banner\<close>.\<close>

definition annotate_image ::
  "(pil_image \<Rightarrow> string \<Rightarrow> nat \<times> nat \<times> nat \<Rightarrow> pil_image)
     \<Rightarrow> pil_image \<Rightarrow> string \<Rightarrow> bool \<Rightarrow> pil_image" where
  "annotate_image draw_banner img summary fire_detected =
     (let stripped = str_strip summary;
          safe_summary = (if stripped = [] then ''Analysis completed.'' else stripped);
          shown = (if length safe_summary > 220 then take 217 safe_summary @ ''...''
                   else safe_summary);
          rectangle_color = (if fire_detected then (214, 45, 32) else (45, 106, 204))
      in draw_banner img shown rectangle_color)"

section \<open>The orchestrator (\<open>routes.ai_enhanced_fire_detect\<close>)\<close>

text \<open>
  The collaborators the request handler reaches: the transport, the base64 encoder, the
  built-in \<open>str\<close>, \<open>secure_filename\<close>, the image decoder, the colour conversion, the
  banner drawing, \<open>save_annotated_image\<close> (which encodes the annotated image and does
  not raise) and \<open>Path(...).stem\<close>.
\<close>

record externals =
  ext_post :: "http_request \<Rightarrow> http_outcome"
  ext_b64encode :: "8 word list \<Rightarrow> string"
  ext_py_str :: "json \<Rightarrow> string"
  ext_secure_filename :: "string \<Rightarrow> string"
  ext_image_open :: "8 word list \<Rightarrow> pil_image option"
  ext_cvtColor :: "rgb \<Rightarrow> hsv"
  ext_draw_banner :: "pil_image \<Rightarrow> string \<Rightarrow> nat \<times> nat \<times> nat \<Rightarrow> pil_image"
  ext_save_annotated_image :: "pil_image \<Rightarrow> string \<Rightarrow> string \<Rightarrow> string"
  ext_path_stem :: "string \<Rightarrow> string"

text \<open>The keys of \<open>current_app.config\<close> that the handler reads; the two bounds are read
  with \<open>get\<close> and a default.\<close>

record app_config =
  MAX_IMAGES_PER_REQUEST :: "int option"
  MIN_IMAGES_PER_REQUEST :: "int option"
  ALLOWED_MIME_TYPES :: "string set"
  MAX_CONTENT_LENGTH :: int
  DASHSCOPE_MODEL :: string

definition max_images :: "app_config \<Rightarrow> int" where
  "max_images cfg = (case MAX_IMAGES_PER_REQUEST cfg of None \<Rightarrow> 2 | Some m \<Rightarrow> m)"

definition min_images :: "app_config \<Rightarrow> int" where
  "min_images cfg = (case MIN_IMAGES_PER_REQUEST cfg of None \<Rightarrow> 1 | Some m \<Rightarrow> m)"

text \<open>The uploads of a request under the fields \<open>images\<close> and \<open>image\<close>.\<close>

record upload_request =
  rq_images :: "upload list"
  rq_image :: "upload list"

text \<open>\<open>request.files.getlist("images") or request.files.getlist("image")\<close>\<close>

definition request_files :: "upload_request \<Rightarrow> upload list" where
  "request_files rq = (if rq_images rq \<noteq> [] then rq_images rq else rq_image rq)"

text \<open>An entry of \<open>results\<close> (the model and the raw response are present in the entries
  of analysed images only; the latency is left out) and an entry of
  \<open>annotated_images\<close>.\<close>

record result_entry =
  r_filename :: string
  r_width :: nat
  r_height :: nat
  r_fire_detected :: bool
  r_confidence :: "real option"
  r_analysis_summary :: string
  r_local_fire_probability :: real
  r_is_thermal :: bool
  r_source :: string
  r_dashscope_model :: "string option"
  r_raw_response :: "json option"

record annotated_entry =
  ann_filename :: string
  ann_image_base64 :: string

record api_response =
  resp_status :: string
  resp_request_id :: string
  resp_results :: "result_entry list"
  resp_annotated_images :: "annotated_entry list"

text \<open>
  What the handler does, in order, tagged with the position of the image in the request
  (counted from one, as the loop counts): reading and decoding bytes, invoking the client,
  the requests the client posts, and annotating.
\<close>

datatype event =
    FileIO nat io_action
  | ClientCall nat
  | NetworkPost nat http_request
  | AnnotateImage nat

text \<open>One pass through the body of the loop.\<close>

definition process_image ::
  "externals \<Rightarrow> client \<Rightarrow> app_config \<Rightarrow> string \<Rightarrow> nat \<Rightarrow> upload
     \<Rightarrow> event list \<times> (api_error + result_entry \<times> annotated_entry)" where
  "process_image ext cl cfg request_id index file_storage =
     (case prepare_image (ext_secure_filename ext) (ext_image_open ext) (ext_cvtColor ext)
             file_storage (ALLOWED_MIME_TYPES cfg) (MAX_CONTENT_LENGTH cfg) of
        (io, Inl e) \<Rightarrow> (map (FileIO index) io, Inl e)
      | (io, Inr prepared) \<Rightarrow>
          if prep_is_thermal prepared then
            let summary = ''Thermal image detected and skipped from DashScope analysis.'';
                annotated = annotate_image (ext_draw_banner ext) (prep_image prepared)
                              summary False;
                encoded = ext_save_annotated_image ext annotated
                            (ext_path_stem ext (prep_filename prepared))
                            (prep_image_format prepared)
            in (map (FileIO index) io @ [AnnotateImage index],
                Inr (\<lparr>r_filename = prep_filename prepared,
                       r_width = prep_width prepared,
                       r_height = prep_height prepared,
                       r_fire_detected = False,
                       r_confidence = None,
                       r_analysis_summary = summary,
                       r_local_fire_probability = prep_fire_probability prepared,
                       r_is_thermal = True,
                       r_source = ''thermal-filter'',
                       r_dashscope_model = None,
                       r_raw_response = None\<rparr>,
                     \<lparr>ann_filename = prep_filename prepared,
                       ann_image_base64 = encoded\<rparr>))
          else
            (case analyze_image (ext_post ext) (ext_b64encode ext) (ext_py_str ext) cl
                    (prep_raw_bytes prepared) (prep_image_format prepared) request_id
                    (Some \<lparr>ctx_filename = Some (prep_filename prepared),
                           ctx_local_probability = Some (prep_fire_probability prepared)\<rparr>) of
               (posts, Inl e) \<Rightarrow>
                 (map (FileIO index) io @ [ClientCall index] @ map (NetworkPost index) posts,
                  Inl (case e of
                         Unhandled x \<Rightarrow>
                           if is_Exception x
                           then ExternalServiceError UnexpectedError
                                  [(''filename'', prep_filename prepared)]
                           else Unhandled x
                       | _ \<Rightarrow> e))
             | (posts, Inr analysis) \<Rightarrow>
                 let summary = res_summary analysis;
                     annotated = annotate_image (ext_draw_banner ext) (prep_image prepared)
                                   summary (res_fire_detected analysis);
                     encoded = ext_save_annotated_image ext annotated
                                 (ext_path_stem ext (prep_filename prepared))
                                 (prep_image_format prepared)
                 in (map (FileIO index) io @ [ClientCall index]
                       @ map (NetworkPost index) posts @ [AnnotateImage index],
                     Inr (\<lparr>r_filename = prep_filename prepared,
                            r_width = prep_width prepared,
                            r_height = prep_height prepared,
                            r_fire_detected = res_fire_detected analysis,
                            r_confidence = res_confidence analysis,
                            r_analysis_summary = summary,
                            r_local_fire_probability = prep_fire_probability prepared,
                            r_is_thermal = False,
                            r_source = ''dashscope'',
                            r_dashscope_model = Some (DASHSCOPE_MODEL cfg),
                            r_raw_response = Some (res_raw_response analysis)\<rparr>,
                          \<lparr>ann_filename = prep_filename prepared,
                            ann_image_base64 = encoded\<rparr>))))"

text \<open>The loop over the uploads: each pass appends one entry to \<open>results\<close> and one to
  \<open>annotated_images\<close>; a raised error ends the loop and the request.\<close>

fun process_files ::
  "externals \<Rightarrow> client \<Rightarrow> app_config \<Rightarrow> string \<Rightarrow> nat \<Rightarrow> upload list
     \<Rightarrow> event list \<times> (api_error + result_entry list \<times> annotated_entry list)" where
  "process_files ext cl cfg request_id index [] = ([], Inr ([], []))"
| "process_files ext cl cfg request_id index (file_storage # files) =
     (case process_image ext cl cfg request_id index file_storage of
        (evs, Inl e) \<Rightarrow> (evs, Inl e)
      | (evs, Inr (entry, annotated)) \<Rightarrow>
          (case process_files ext cl cfg request_id (Suc index) files of
             (evs', Inl e) \<Rightarrow> (evs @ evs', Inl e)
           | (evs', Inr (results, annotated_images)) \<Rightarrow>
               (evs @ evs', Inr (entry # results, annotated # annotated_images))))"

text \<open>The handler. The request identifier, drawn at random by the source, is an
  argument; the durations are left out.\<close>

definition ai_enhanced_fire_detect ::
  "externals \<Rightarrow> client \<Rightarrow> app_config \<Rightarrow> string \<Rightarrow> upload_request
     \<Rightarrow> event list \<times> (api_error + api_response)" where
  "ai_enhanced_fire_detect ext cl cfg request_id rq =
     (let files = request_files rq in
      if files = [] then ([], Inl (ValidationError NoImages))
      else if int (length files) < min_images cfg then
        ([], Inl (ValidationError (TooFewImages (min_images cfg))))
      else if int (length files) > max_images cfg then
        ([], Inl (ValidationError (TooManyImages (max_images cfg))))
      else
        (case process_files ext cl cfg request_id 1 files of
           (evs, Inl e) \<Rightarrow> (evs, Inl e)
         | (evs, Inr (results, annotated_images)) \<Rightarrow>
             (evs, Inr \<lparr>resp_status = ''success'',
                         resp_request_id = request_id,
                         resp_results = results,
                         resp_annotated_images = annotated_images\<rparr>)))"

text \<open>What the image at a position is classified as, if its intake succeeds.\<close>

definition classified_thermal :: "externals \<Rightarrow> app_config \<Rightarrow> upload \<Rightarrow> bool" where
  "classified_thermal ext cfg file_storage =
     (case snd (prepare_image (ext_secure_filename ext) (ext_image_open ext) (ext_cvtColor ext)
                  file_storage (ALLOWED_MIME_TYPES cfg) (MAX_CONTENT_LENGTH cfg)) of
        Inl e \<Rightarrow> False
      | Inr prepared \<Rightarrow> prep_is_thermal prepared)"

definition event_index :: "event \<Rightarrow> nat" where
  "event_index ev =
     (case ev of
        FileIO i a \<Rightarrow> i
      | ClientCall i \<Rightarrow> i
      | NetworkPost i r \<Rightarrow> i
      | AnnotateImage i \<Rightarrow> i)"

definition client_event :: "event \<Rightarrow> bool" where
  "client_event ev =
     (case ev of
        ClientCall i \<Rightarrow> True
      | NetworkPost i r \<Rightarrow> True
      | _ \<Rightarrow> False)"

section \<open>Example inputs\<close>

text \<open>A stand-in for \<open>str\<close> on values that are not strings, and a response payload
  whose content is a list of typed blocks.\<close>

definition example_str :: "json \<Rightarrow> string" where
  "example_str v = ''?''"


text \<open>
  The RGB to HSV conversion for 8-bit images as OpenCV documents it: the value is the largest
  channel, the saturation \<open>255 (V - min) / V\<close> (zero for black), the hue an angle in
  degrees, halved to fit eight bits; each rounded to the nearest integer. It instantiates
  the parameter \<open>cvt\<close> in the examples.
\<close>

definition documented_rgb2hsv :: "rgb \<Rightarrow> hsv" where
  "documented_rgb2hsv p =
     (case p of (r, g, b) \<Rightarrow>
        let R = real (unat r); G = real (unat g); B = real (unat b);
            V = max R (max G B);
            m = min R (min G B);
            d = V - m;
            S = (if V = 0 then 0 else 255 * d / V);
            H = (if d = 0 then 0
                 else if V = R then 60 * (G - B) / d
                 else if V = G then 120 + 60 * (B - R) / d
                 else 240 + 60 * (R - G) / d);
            H' = (if H < 0 then H + 360 else H)
        in (of_int \<lfloor>H' / 2 + 1 / 2\<rfloor>, of_int \<lfloor>S + 1 / 2\<rfloor>, of_int \<lfloor>V + 1 / 2\<rfloor>))"

definition example_client :: client where
  "example_client =
     \<lparr>client_api_key = None,
      client_endpoint = ''https://dashscope.aliyuncs.com/compatible-mode/v1/chat/completions'',
      client_model = ''qwen-vl-max'',
      client_timeout = (10, 120),
      client_force_mock = False,
      client_analysis_prompt = ''You are an expert vision model.''\<rparr>"

definition example_post :: "http_request \<Rightarrow> http_outcome" where
  "example_post req = Response 200 ''{}'' (Some (JObj []))"

definition example_b64 :: "8 word list \<Rightarrow> string" where
  "example_b64 bs = map (\<lambda>b. CHR ''A'') bs"

text \<open>
  \<open>werkzeug.utils.secure_filename\<close> on a POSIX system, for ASCII names: path separators
  become spaces, runs of whitespace become one underscore, every character outside
  \<open>A-Za-z0-9_.-\<close> is dropped, and leading and trailing dots and underscores are
  stripped. It instantiates the parameter in the examples.
\<close>

fun split_whitespace :: "string \<Rightarrow> string \<Rightarrow> string list" where
  "split_whitespace cur [] = (if cur = [] then [] else [rev cur])"
| "split_whitespace cur (c # cs) =
     (if is_space c then
        (if cur = [] then split_whitespace [] cs else rev cur # split_whitespace [] cs)
      else split_whitespace (c # cur) cs)"

fun join_underscore :: "string list \<Rightarrow> string" where
  "join_underscore [] = []"
| "join_underscore [x] = x"
| "join_underscore (x # y # zs) = x @ ''_'' @ join_underscore (y # zs)"

definition werkzeug_secure_filename :: "string \<Rightarrow> string" where
  "werkzeug_secure_filename name =
     (let spaced = map (\<lambda>c. if c = CHR ''/'' then CHR '' '' else c) name;
          joined = join_underscore (split_whitespace [] spaced);
          kept = filter (\<lambda>c. c \<in> set (''ABCDEFGHIJKLMNOPQRSTUVWXYZabcdefghijklmnopqrstuvwxyz''
                                        @ ''0123456789_.-'')) joined;
          edge = (\<lambda>c. c = CHR ''.'' \<or> c = CHR ''_'')
      in rev (dropWhile edge (rev (dropWhile edge kept))))"

text \<open>A decoder that answers every upload with the same two-pixel image, one that
  answers with a grey image, a drawing that leaves the image alone and an encoder that
  returns the base name.\<close>

definition example_image :: pil_image where
  "example_image = \<lparr>img_format = Some ''JPEG'', img_rows = [[(255, 0, 0), (0, 60, 0)]]\<rparr>"

definition grey_image :: pil_image where
  "grey_image = \<lparr>img_format = Some ''PNG'', img_rows = [[(90, 90, 90), (200, 200, 200)]]\<rparr>"

definition example_externals :: externals where
  "example_externals =
     \<lparr>ext_post = example_post,
      ext_b64encode = example_b64,
      ext_py_str = example_str,
      ext_secure_filename = werkzeug_secure_filename,
      ext_image_open = (\<lambda>bytes. if hd bytes = 0 then Some grey_image else Some example_image),
      ext_cvtColor = documented_rgb2hsv,
      ext_draw_banner = (\<lambda>img shown color. img),
      ext_save_annotated_image = (\<lambda>img base format_hint. base),
      ext_path_stem = (\<lambda>name. takeWhile (\<lambda>c. c \<noteq> CHR ''.'') name)\<rparr>"

definition example_config :: app_config where
  "example_config =
     \<lparr>MAX_IMAGES_PER_REQUEST = Some 2,
      MIN_IMAGES_PER_REQUEST = Some 1,
      ALLOWED_MIME_TYPES = {''image/jpeg'', ''image/png'', ''image/jpg'', ''image/webp''},
      MAX_CONTENT_LENGTH = 10485760,
      DASHSCOPE_MODEL = ''qwen-vl-max''\<rparr>"

definition mock_client :: client where
  "mock_client = example_client\<lparr>client_force_mock := True\<rparr>"

definition photo_upload :: upload where
  "photo_upload =
     \<lparr>up_filename = Some ''my photo.jpg'', up_mimetype = ''image/jpeg'',
      up_content = Some [1, 2, 3]\<rparr>"

definition thermal_upload :: upload where
  "thermal_upload =
     \<lparr>up_filename = Some ''scan.png'', up_mimetype = ''image/png'',
      up_content = Some [0, 2, 3]\<rparr>"

section \<open>Substring search\<close>

lemma contains_occurs_in: "contains s t \<longleftrightarrow> occurs_in t s"
proof (induction s)
  case Nil
  show ?case by (auto simp: occurs_in_def)
next
  case (Cons c cs)
  show ?case
  proof
    assume "contains (c # cs) t"
    then consider "prefix t (c # cs)" | "contains cs t" by auto
    then show "occurs_in t (c # cs)"
    proof cases
      case 1
      then obtain r where "c # cs = t @ r" by (auto simp: prefix_def)
      then have "c # cs = [] @ t @ r" by simp
      then show ?thesis unfolding occurs_in_def by blast
    next
      case 2
      with Cons obtain b a where "cs = b @ t @ a" by (auto simp: occurs_in_def)
      then have "c # cs = (c # b) @ t @ a" by simp
      then show ?thesis unfolding occurs_in_def by blast
    qed
  next
    assume "occurs_in t (c # cs)"
    then obtain b a where eq: "c # cs = b @ t @ a" by (auto simp: occurs_in_def)
    show "contains (c # cs) t"
    proof (cases b)
      case Nil
      with eq have "prefix t (c # cs)" by (simp add: prefix_def)
      then show ?thesis by simp
    next
      case (Cons b0 bs)
      with eq have "cs = bs @ t @ a" by simp
      then have "occurs_in t cs" unfolding occurs_in_def by blast
      with Cons.IH show ?thesis by simp
    qed
  qed
qed

lemma list_ex_contains:
  "list_ex (\<lambda>t. contains s (f t)) ts \<longleftrightarrow> (\<exists>t \<in> set ts. occurs_in (f t) s)"
  by (simp add: list_ex_iff contains_occurs_in)

lemma negative_tokens_spec: "set negative_tokens = spec_negative_phrases"
  by (simp add: negative_tokens_def spec_negative_phrases_def)

lemma affirmative_tokens_spec: "set affirmative_tokens = spec_affirmative_tokens"
  by (simp add: affirmative_tokens_def spec_affirmative_tokens_def)

lemma context_probability_high_local:
  "context_probability_high ctx
     = (case local_probability_of ctx of Some p \<Rightarrow> p \<ge> 0.5 | None \<Rightarrow> False)"
  by (auto simp: context_probability_high_def local_probability_of_def context_truthy_def
      get_local_probability_def split: option.splits)

section \<open>Fire-detected inference: the precedence\<close>

text \<open>Examples of the specification's testable properties.\<close>

lemma infer_no_fire_detected:
  "infer_fire_detection ''No fire detected in this scene'' ctx confidence = False"
  by (simp add: infer_fire_detection_def Let_def str_lower_def lower_char_def negative_tokens_def)

lemma infer_visible_flame:
  "infer_fire_detection ''Visible flame and heavy smoke'' ctx confidence = True"
  by (simp add: infer_fire_detection_def Let_def str_lower_def lower_char_def
      negative_tokens_def affirmative_tokens_def)

lemma infer_empty_local_only:
  "infer_fire_detection []
     (Some \<lparr>ctx_filename = None, ctx_local_probability = Some 0.7\<rparr>) None = True"
  by (simp add: infer_fire_detection_def context_probability_high_def context_truthy_def
      get_local_probability_def)

text \<open>The function on every input: for an empty summary either signal at or above one
  half suffices.\<close>

lemma infer_fire_detection_either:
  "infer_fire_detection summary ctx confidence
     = spec_infer_either summary confidence (local_probability_of ctx)"
proof (cases "summary = []")
  case True
  then show ?thesis
    by (simp add: infer_fire_detection_def spec_infer_either_def context_probability_high_local
        split: option.splits)
next
  case False
  then show ?thesis
    by (simp add: infer_fire_detection_def spec_infer_either_def spec_infer_nonempty_def Let_def
        list_ex_contains [where f = "\<lambda>t. t", simplified] list_ex_contains
        negative_tokens_spec affirmative_tokens_spec context_probability_high_local
        split: option.splits)
qed

text \<open>The two readings of step (a) differ only for an empty summary with a known
  confidence, which \<open>analyze_image\<close> never passes: the confidence it passes is extracted
  from the summary, and is unknown for the empty one.\<close>

lemma spec_infer_readings:
  "summary \<noteq> [] \<or> confidence = None \<Longrightarrow>
     spec_infer_either summary confidence local = spec_infer_precedence summary confidence local"
  by (auto simp: spec_infer_either_def spec_infer_precedence_def split: option.splits)

lemma extract_confidence_empty: "extract_confidence [] = None"
  by (simp add: extract_confidence_def)

text \<open>
  Claim C1: the fire-detected inference, applied to an extracted summary, the confidence
  extracted from it (or any optional confidence, for a summary that is not empty) and an
  optional local probability, equals the reference precedence (a) to (f).
\<close>

theorem infer_fire_detection_precedence:
  "infer_fire_detection summary ctx (extract_confidence summary)
     = spec_infer_precedence summary (extract_confidence summary) (local_probability_of ctx)
   \<and> (summary \<noteq> [] \<or> confidence = None \<longrightarrow>
        infer_fire_detection summary ctx confidence
          = spec_infer_precedence summary confidence (local_probability_of ctx))"
proof (intro conjI impI)
  have "summary \<noteq> [] \<or> extract_confidence summary = None"
    using extract_confidence_empty by (cases summary) simp_all
  then show "infer_fire_detection summary ctx (extract_confidence summary)
     = spec_infer_precedence summary (extract_confidence summary) (local_probability_of ctx)"
    by (simp only: infer_fire_detection_either spec_infer_readings)
next
  assume "summary \<noteq> [] \<or> confidence = None"
  then show "infer_fire_detection summary ctx confidence
          = spec_infer_precedence summary confidence (local_probability_of ctx)"
    by (simp only: infer_fire_detection_either spec_infer_readings)
qed

theorem infer_fire_detection_precedence_witness:
  "infer_fire_detection ''Visible flame and heavy smoke''
      (Some \<lparr>ctx_filename = Some ''a.jpg'', ctx_local_probability = Some 0.1\<rparr>) (Some 0.2)
     = spec_infer_precedence ''Visible flame and heavy smoke'' (Some 0.2) (Some 0.1)
   \<and> spec_infer_precedence ''Visible flame and heavy smoke'' (Some 0.2) (Some 0.1) = True
   \<and> spec_infer_precedence []  None (Some 0.7) = True
   \<and> infer_fire_detection []
        (Some \<lparr>ctx_filename = Some ''a.jpg'', ctx_local_probability = Some 0.7\<rparr>)
        (extract_confidence []) = True"
proof -
  let ?s = "''Visible flame and heavy smoke''"
  let ?c1 = "Some \<lparr>ctx_filename = Some ''a.jpg'', ctx_local_probability = Some 0.1\<rparr>"
  let ?c7 = "Some \<lparr>ctx_filename = Some ''a.jpg'', ctx_local_probability = Some 0.7\<rparr>"
  have l1: "local_probability_of ?c1 = Some 0.1" and l7: "local_probability_of ?c7 = Some 0.7"
    by (simp_all add: local_probability_of_def)
  have h: "?s \<noteq> [] \<or> Some (0.2::real) = None" by simp
  have a: "infer_fire_detection ?s ?c1 (Some 0.2)
             = spec_infer_precedence ?s (Some 0.2) (local_probability_of ?c1)"
    by (rule mp [OF conjunct2 [OF infer_fire_detection_precedence] h])
  have b: "infer_fire_detection ?s ?c1 (Some 0.2) = True" by (rule infer_visible_flame)
  have c: "infer_fire_detection [] ?c7 (extract_confidence [])
             = spec_infer_precedence [] (extract_confidence []) (local_probability_of ?c7)"
    by (rule conjunct1 [OF infer_fire_detection_precedence])
  have d: "spec_infer_precedence [] None (Some 0.7) = True"
    by (simp add: spec_infer_precedence_def)
  from a b c d l1 l7 show ?thesis by (simp add: extract_confidence_empty)
qed

section \<open>Fire-detected inference: affirmative tokens inside longer words\<close>

lemma infer_embedded_tokens:
  "infer_fire_detection ''campfire'' ctx confidence"
  "infer_fire_detection ''firefighter'' ctx confidence"
  "infer_fire_detection ''burnt'' ctx confidence"
  "infer_fire_detection ''smoked'' ctx confidence"
  by (simp_all add: infer_fire_detection_def Let_def str_lower_def lower_char_def
      negative_tokens_def affirmative_tokens_def)

text \<open>
  Claim C10: the affirmative check is substring containment on the lowercased summary. Any
  summary in which an affirmative token occurs (also inside a longer word), no negative
  phrase occurs and no \<open>no <token>\<close> pattern occurs, yields fire detected, whatever the
  confidence and the context are.
\<close>

theorem affirmative_substring_detected:
  assumes "\<exists>token \<in> set affirmative_tokens. occurs_in token (str_lower summary)"
    and "\<forall>phrase \<in> set negative_tokens. \<not> occurs_in phrase (str_lower summary)"
    and "\<forall>token \<in> set affirmative_tokens. \<not> occurs_in (''no '' @ token) (str_lower summary)"
  shows "infer_fire_detection summary ctx confidence = True"
proof -
  from assms(1) have "summary \<noteq> []"
    by (auto simp: affirmative_tokens_def occurs_in_def str_lower_def)
  with assms show ?thesis
    by (simp add: infer_fire_detection_def Let_def list_ex_iff contains_occurs_in)
qed

theorem affirmative_substring_detected_witness:
  "list_ex (\<lambda>token. contains (str_lower ''A campfire site'') token) affirmative_tokens
   \<and> \<not> list_ex (\<lambda>phrase. contains (str_lower ''A campfire site'') phrase) negative_tokens
   \<and> \<not> list_ex (\<lambda>token. contains (str_lower ''A campfire site'') (''no '' @ token))
         affirmative_tokens
   \<and> infer_fire_detection ''A campfire site'' None (Some 0) = True"
proof -
  have a: "\<exists>token \<in> set affirmative_tokens. occurs_in token (str_lower ''A campfire site'')"
    by (simp add: contains_occurs_in [symmetric] affirmative_tokens_def str_lower_def
        lower_char_def)
  have b: "\<forall>phrase \<in> set negative_tokens. \<not> occurs_in phrase (str_lower ''A campfire site'')"
    by (simp add: contains_occurs_in [symmetric] negative_tokens_def str_lower_def
        lower_char_def)
  have c: "\<forall>token \<in> set affirmative_tokens.
             \<not> occurs_in (''no '' @ token) (str_lower ''A campfire site'')"
    by (simp add: contains_occurs_in [symmetric] affirmative_tokens_def str_lower_def
        lower_char_def)
  from a b c affirmative_substring_detected [OF a b c, of None "Some 0"] show ?thesis
    by (simp add: list_ex_iff contains_occurs_in)
qed

section \<open>Confidence extraction: the first occurrence\<close>







































section \<open>Summary extraction is total\<close>













section \<open>The client without a credential, and mock mode\<close>

text \<open>
  Claim C3: with no API credential configured and mock mode not forced, every call of the
  analyze operation raises \<open>ConfigurationError\<close>; it returns no verdict and posts no
  request.
\<close>

theorem analyze_without_key_raises:
  assumes "api_key_missing c" and "\<not> client_force_mock c"
  shows "analyze_image post b64encode py_str c image_bytes image_format request_id ctx
           = ([], Inl (ConfigurationError ApiKeyMissing))"
  using assms by (simp add: analyze_image_def)

theorem analyze_without_key_raises_witness:
  "api_key_missing example_client \<and> \<not> client_force_mock example_client
   \<and> analyze_image example_post example_b64 example_str example_client [1, 2, 3] ''png''
        ''req-1'' (Some \<lparr>ctx_filename = Some ''a.png'', ctx_local_probability = Some 0.9\<rparr>)
      = ([], Inl (ConfigurationError ApiKeyMissing))"
proof -
  have a: "api_key_missing example_client" by (simp add: api_key_missing_def example_client_def)
  have b: "\<not> client_force_mock example_client" by (simp add: example_client_def)
  from a b analyze_without_key_raises [OF a b] show ?thesis by simp
qed

lemma mock_summary_percent: "format_1f 80 = ''80.0''"
  by (simp add: format_1f_def round_half_even_def show_nat.simps digit_char_def Let_def)

lemma mock_summary_contains:
  "occurs_in ''80.0%''
     (''[Mock] Local heuristic indicates a '' @ ''80.0''
      @ ''% probability of visible fire or smoke. '' @ ''No external analysis was performed.'')"
  by (simp add: contains_occurs_in [symmetric])

text \<open>
  Claim C4, as stated with the specification's mock mode (forced, or no credential
  configured): it fails for a client without a credential whose mock mode is not forced.
  The guard at the head of \<open>analyze_image\<close> raises \<open>ConfigurationError\<close> there, and no
  mock verdict is returned.
\<close>

theorem analyze_mock_without_key_counterexample:
  "mock_mode_active example_client
   \<and> analyze_image example_post example_b64 example_str example_client [1, 2, 3] ''png''
        ''req-1'' (Some \<lparr>ctx_filename = Some ''a.png'', ctx_local_probability = Some 0.8\<rparr>)
      = ([], Inl (ConfigurationError ApiKeyMissing))
   \<and> analyze_image example_post example_b64 example_str example_client [1, 2, 3] ''png''
        ''req-1'' (Some \<lparr>ctx_filename = Some ''a.png'', ctx_local_probability = Some 0.8\<rparr>)
      \<noteq> ([], Inr (mock_response
                     (Some \<lparr>ctx_filename = Some ''a.png'', ctx_local_probability = Some 0.8\<rparr>)))"
  by (simp add: mock_mode_active_def analyze_image_def api_key_missing_def example_client_def)

text \<open>
  Claim C4, amended: whenever mock mode is forced, for every context carrying a local
  probability \<open>p\<close>, the analyze operation posts no request and returns fire detected exactly
  when \<open>p >= 0.5\<close>, the confidence \<open>p\<close> when detected and none otherwise, the summary that
  embeds \<open>100 p\<close> with one decimal, and a raw response flagged as mock that echoes \<open>p\<close>;
  for \<open>p = 0.8\<close> the summary contains \<open>80.0%\<close>. A missing credential alone does not
  activate mock mode.
\<close>

theorem analyze_mock_response:
  "(client_force_mock c \<and> ctx = Some cx \<and> ctx_local_probability cx = Some p \<longrightarrow>
      analyze_image post b64encode py_str c image_bytes image_format request_id ctx
        = ([], Inr \<lparr>res_summary =
                       ''[Mock] Local heuristic indicates a '' @ format_1f (p * 100)
                       @ ''% probability of visible fire or smoke. ''
                       @ ''No external analysis was performed.'',
                     res_fire_detected = (p \<ge> 0.5),
                     res_confidence = (if p \<ge> 0.5 then Some p else None),
                     res_raw_response =
                       JObj [(''mock'', JBool True),
                             (''local_probability'', JNum p),
                             (''note'',
                              JStr ''DashScope mock mode is enabled (no API key configured).'')]\<rparr>))
   \<and> (client_force_mock c \<and> ctx = Some cx \<and> ctx_local_probability cx = Some 0.8 \<longrightarrow>
      (\<exists>r. analyze_image post b64encode py_str c image_bytes image_format request_id ctx
             = ([], Inr r)
           \<and> res_fire_detected r \<and> res_confidence r = Some 0.8
           \<and> occurs_in ''80.0%'' (res_summary r)))"
proof (intro conjI impI)
  assume a: "client_force_mock c \<and> ctx = Some cx \<and> ctx_local_probability cx = Some p"
  then show "analyze_image post b64encode py_str c image_bytes image_format request_id ctx
        = ([], Inr \<lparr>res_summary =
                       ''[Mock] Local heuristic indicates a '' @ format_1f (p * 100)
                       @ ''% probability of visible fire or smoke. ''
                       @ ''No external analysis was performed.'',
                     res_fire_detected = (p \<ge> 0.5),
                     res_confidence = (if p \<ge> 0.5 then Some p else None),
                     res_raw_response =
                       JObj [(''mock'', JBool True),
                             (''local_probability'', JNum p),
                             (''note'',
                              JStr ''DashScope mock mode is enabled (no API key configured).'')]\<rparr>)"
    by (simp add: analyze_image_def mock_response_def context_truthy_def
        get_local_probability_def Let_def)
next
  assume a: "client_force_mock c \<and> ctx = Some cx \<and> ctx_local_probability cx = Some 0.8"
  then show "\<exists>r. analyze_image post b64encode py_str c image_bytes image_format request_id ctx
             = ([], Inr r)
           \<and> res_fire_detected r \<and> res_confidence r = Some 0.8
           \<and> occurs_in ''80.0%'' (res_summary r)"
    using mock_summary_contains
    by (simp add: analyze_image_def mock_response_def context_truthy_def
        get_local_probability_def Let_def mock_summary_percent)
qed

theorem analyze_mock_response_witness:
  "client_force_mock (example_client\<lparr>client_force_mock := True\<rparr>)
   \<and> (\<exists>r. analyze_image example_post example_b64 example_str
            (example_client\<lparr>client_force_mock := True\<rparr>) [1, 2, 3] ''png'' ''req-1''
            (Some \<lparr>ctx_filename = Some ''a.png'', ctx_local_probability = Some 0.8\<rparr>)
          = ([], Inr r)
        \<and> res_fire_detected r \<and> res_confidence r = Some 0.8
        \<and> occurs_in ''80.0%'' (res_summary r))"
proof -
  let ?c = "example_client\<lparr>client_force_mock := True\<rparr>"
  let ?cx = "\<lparr>ctx_filename = Some ''a.png'', ctx_local_probability = Some 0.8\<rparr>"
  have a: "client_force_mock ?c" by simp
  have b: "client_force_mock ?c \<and> Some ?cx = Some ?cx \<and> ctx_local_probability ?cx = Some 0.8"
    by simp
  have r: "\<exists>r. analyze_image example_post example_b64 example_str ?c [1, 2, 3] ''png'' ''req-1''
              (Some ?cx) = ([], Inr r)
            \<and> res_fire_detected r \<and> res_confidence r = Some 0.8
            \<and> occurs_in ''80.0%'' (res_summary r)"
    by (rule mp [OF conjunct2 [OF analyze_mock_response] b])
  from a r show ?thesis by (rule conjI)
qed

section \<open>Thermal detection\<close>



lemma stride_one: "stride (Suc 0) xs = xs"
  by (induction xs) simp_all

text \<open>The positions a stride keeps.\<close>

lemma stride_length: "0 < f \<Longrightarrow> length (stride f xs) = (length xs + f - 1) div f"
proof (induction f xs rule: stride.induct)
  case (1 f)
  then show ?case by simp
next
  case (2 f x xs)
  have ih: "length (stride f (drop (f - 1) xs)) = (length xs - (f - 1) + f - 1) div f"
    using 2 by simp
  have a: "(length xs - (f - 1) + f - 1) div f = length xs div f"
  proof (cases "f - 1 \<le> length xs")
    case True
    then have "length xs - (f - 1) + f - 1 = length xs" using 2(2) by simp
    then show ?thesis by (simp only:)
  next
    case False
    then have e: "length xs - (f - 1) + f - 1 = f - 1" and l: "length xs < f" by simp_all
    have "(f - 1) div f = 0" using 2(2) by simp
    moreover have "length xs div f = 0" using l by simp
    ultimately show ?thesis by (simp only: e)
  qed
  have "length (x # xs) + f - 1 = length xs + f" using 2(2) by simp
  then have b: "(length (x # xs) + f - 1) div f = Suc (length xs div f)" using 2(2) by simp
  show ?case using ih a b by simp
qed

lemma stride_nth:
  "0 < f \<Longrightarrow> i * f < length xs \<Longrightarrow> stride f xs ! i = xs ! (i * f)"
proof (induction f xs arbitrary: i rule: stride.induct)
  case (1 f)
  then show ?case by simp
next
  case (2 f x xs)
  show ?case
  proof (cases i)
    case 0
    then show ?thesis by simp
  next
    case (Suc j)
    with 2 have lt: "j * f < length (drop (f - 1) xs)" by (simp add: algebra_simps)
    have "f - 1 + j * f < length xs" using lt by simp
    then have "drop (f - 1) xs ! (j * f) = xs ! (f - 1 + j * f)" by simp
    moreover have "Suc (f - 1 + j * f) = Suc j * f" using 2(2) by simp
    ultimately show ?thesis using 2 lt Suc by (simp del: mult_Suc)
  qed
qed





lemma np_mean_saturation:
  "np_mean (map saturation (map cvt grid)) = mean_saturation cvt grid"
proof -
  have "real (sum_list (map f grid)) = (\<Sum>p\<leftarrow>grid. real (f p))" for f :: "rgb \<Rightarrow> nat"
    by (induction grid) simp_all
  then show ?thesis by (simp add: np_mean_def mean_saturation_def comp_def)
qed

lemma np_mean_value:
  "np_mean (map brightness (map cvt grid)) = mean_value cvt grid"
proof -
  have "real (sum_list (map f grid)) = (\<Sum>p\<leftarrow>grid. real (f p))" for f :: "rgb \<Rightarrow> nat"
    by (induction grid) simp_all
  then show ?thesis by (simp add: np_mean_def mean_value_def comp_def)
qed

lemma np_std_value:
  "np_std (map brightness (map cvt grid)) = value_deviation cvt grid"
  unfolding np_std_def value_deviation_def np_mean_value
  by (simp add: comp_def)

lemma unique_ratio:
  "real (length (remdups grid)) / real (length grid) = distinct_color_ratio grid"
  by (simp add: distinct_color_ratio_def length_remdups_card_conv)

lemma detect_thermal_grid:
  assumes "concat (downsample 512 rows) \<noteq> []"
  shows "detect_thermal cvt (RGBArray rows)
           = Inr (mean_saturation cvt (concat (downsample 512 rows)) < 25
                  \<or> value_deviation cvt (concat (downsample 512 rows)) < 18
                  \<or> distinct_color_ratio (concat (downsample 512 rows)) < 0.08)"
proof -
  define grid where "grid = concat (downsample 512 rows)"
  have "detect_thermal cvt (RGBArray rows)
          = Inr (np_mean (map saturation (map cvt grid)) < 25
                 \<or> np_std (map brightness (map cvt grid)) < 18
                 \<or> real (length (remdups grid)) / real (length grid) < 0.08)"
    using assms by (simp add: detect_thermal_def Let_def grid_def)
  then show ?thesis
    by (simp only: np_mean_saturation np_std_value unique_ratio grid_def)
qed

lemma mean_saturation_grey:
  assumes "grey_unsaturated cvt" and "\<forall>p \<in> set grid. desaturated p"
  shows "mean_saturation cvt grid = 0"
proof -
  have "saturation (cvt p) = 0" if "p \<in> set grid" for p
  proof -
    from assms(2) that have "desaturated p" by blast
    then obtain c where "p = (c, c, c)" by (cases p) (auto simp: desaturated_def)
    with assms(1) show ?thesis by (simp add: grey_unsaturated_def)
  qed
  then have "(\<Sum>p\<leftarrow>grid. real (saturation (cvt p))) = 0"
    by (induction grid) simp_all
  then show ?thesis by (simp add: mean_saturation_def)
qed


lemma documented_grey: "grey_unsaturated documented_rgb2hsv"
proof -
  have "saturation (documented_rgb2hsv (c, c, c)) = 0" for c
  proof -
    have "snd (documented_rgb2hsv (c, c, c))
            = (of_int \<lfloor>(0::real) + 1 / 2\<rfloor>, of_int \<lfloor>real (unat c) + 1 / 2\<rfloor>)"
      unfolding documented_rgb2hsv_def Let_def prod.case by simp
    then have "fst (snd (documented_rgb2hsv (c, c, c))) = 0" by simp
    moreover have "saturation p = unat (fst (snd p))" for p
      by (cases p) (simp add: saturation_def)
    ultimately show ?thesis by simp
  qed
  then show ?thesis by (simp add: grey_unsaturated_def)
qed


section \<open>The example images\<close>

lemma sqrt_less_18: "sqrt x < 18 \<longleftrightarrow> x < 324"
proof -
  have "sqrt (324::real) = sqrt (18\<^sup>2)" by simp
  also have "\<dots> = 18" by (simp only: real_sqrt_abs abs_numeral)
  finally have "sqrt (324::real) = 18" .
  then have "sqrt x < 18 \<longleftrightarrow> sqrt x < sqrt 324" by simp
  then show ?thesis by (simp only: real_sqrt_less_iff)
qed

lemma np_std_less_18:
  "np_std xs < 18
     \<longleftrightarrow> sum_list (map (\<lambda>x. (real x - np_mean xs)\<^sup>2) xs) / real (length xs) < 324"
  by (simp only: np_std_def sqrt_less_18)

lemma cvt_red: "documented_rgb2hsv (255, 0, 0) = (0, 255, 255)"
  unfolding documented_rgb2hsv_def Let_def prod.case by simp

lemma cvt_green: "documented_rgb2hsv (0, 60, 0) = (60, 255, 60)"
  unfolding documented_rgb2hsv_def Let_def prod.case by simp

lemma example_not_thermal:
  "detect_thermal documented_rgb2hsv (RGBArray [[(255, 0, 0), (0, 60, 0)]]) = Inr False"
  by (simp add: detect_thermal_def downsample_def array_height_def array_width_def Let_def
      cvt_red cvt_green saturation_def brightness_def np_mean_def np_std_less_18 power2_eq_square)

lemma example_probability:
  "estimate_fire_probability documented_rgb2hsv (RGBArray [[(255, 0, 0), (0, 60, 0)]]) = 46 / 85"
  by (simp add: estimate_fire_probability_def downsample_def array_height_def array_width_def
      Let_def cvt_red cvt_green saturation_def brightness_def hue_def np_mean_def in_red_range_def)

section \<open>The loop of the handler\<close>

lemma prepare_image_filename:
  assumes "prepare_image sf opn cvt f allowed ml = (acts, Inr p)"
  shows "prep_filename p = sf (declared_filename f)"
  using assms unfolding prepare_image_def Let_def
  by (auto split: if_splits option.splits sum.splits)

lemma process_image_index:
  assumes "ev \<in> set (fst (process_image ext cl cfg rid k f))"
  shows "event_index ev = k"
  using assms unfolding process_image_def Let_def
  by (auto simp: event_index_def split: prod.splits sum.splits if_splits)

lemma process_image_filename:
  assumes "process_image ext cl cfg rid k f = (evs, Inr (r, a))"
  shows "r_filename r = ext_secure_filename ext (declared_filename f)
         \<and> ann_filename a = ext_secure_filename ext (declared_filename f)"
  using assms unfolding process_image_def Let_def
  by (auto split: prod.splits sum.splits if_splits dest: prepare_image_filename)

lemma process_image_thermal_events:
  assumes "classified_thermal ext cfg f"
    and "ev \<in> set (fst (process_image ext cl cfg rid k f))"
  shows "\<not> client_event ev"
  using assms unfolding process_image_def classified_thermal_def Let_def
  by (auto simp: client_event_def split: prod.splits sum.splits if_splits)

lemma process_image_thermal_result:
  assumes "classified_thermal ext cfg f"
    and "process_image ext cl cfg rid k f = (evs, Inr (r, a))"
  shows "r_fire_detected r = False \<and> r_confidence r = None \<and> r_source r = ''thermal-filter''
         \<and> r_is_thermal r
         \<and> r_analysis_summary r = ''Thermal image detected and skipped from DashScope analysis.''
         \<and> r_raw_response r = None
         \<and> ann_filename a = r_filename r"
  using assms unfolding process_image_def classified_thermal_def Let_def
  by (auto split: prod.splits sum.splits if_splits)

lemma process_image_thermal_succeeds:
  assumes "classified_thermal ext cfg f"
  shows "\<exists>r a. snd (process_image ext cl cfg rid k f) = Inr (r, a)"
  using assms unfolding process_image_def classified_thermal_def Let_def
  by (auto split: prod.splits sum.splits if_splits)

lemma process_files_results:
  assumes "process_files ext cl cfg rid k fs = (evs, Inr (rs, as))"
  shows "length rs = length fs \<and> length as = length fs
         \<and> (\<forall>j < length fs. snd (process_image ext cl cfg rid (k + j) (fs ! j))
                               = Inr (rs ! j, as ! j))"
  using assms
proof (induction fs arbitrary: k evs rs as)
  case Nil
  then show ?case by simp
next
  case (Cons f fs)
  from Cons.prems obtain e1 r a e2 rs' as'
    where p: "process_image ext cl cfg rid k f = (e1, Inr (r, a))"
      and q: "process_files ext cl cfg rid (Suc k) fs = (e2, Inr (rs', as'))"
      and rs: "rs = r # rs'" and as: "as = a # as'"
    by (auto split: prod.splits sum.splits)
  from Cons.IH [OF q] have len: "length rs' = length fs" "length as' = length fs"
    and ih: "\<forall>j < length fs. snd (process_image ext cl cfg rid (Suc k + j) (fs ! j))
                               = Inr (rs' ! j, as' ! j)"
    by simp_all
  have "snd (process_image ext cl cfg rid (k + j) ((f # fs) ! j)) = Inr (rs ! j, as ! j)"
    if "j < length (f # fs)" for j
  proof (cases j)
    case 0
    with p rs as show ?thesis by simp
  next
    case (Suc j')
    with that have "j' < length fs" by simp
    with ih have "snd (process_image ext cl cfg rid (Suc k + j') (fs ! j'))
                    = Inr (rs' ! j', as' ! j')" by blast
    with Suc rs as show ?thesis by simp
  qed
  with len rs as show ?case by simp
qed

lemma process_files_events:
  assumes "process_files ext cl cfg rid k fs = (evs, res)" and "ev \<in> set evs"
  shows "\<exists>j < length fs. ev \<in> set (fst (process_image ext cl cfg rid (k + j) (fs ! j)))"
  using assms
proof (induction fs arbitrary: k evs res)
  case Nil
  then show ?case by simp
next
  case (Cons f fs)
  obtain e1 r1 where p: "process_image ext cl cfg rid k f = (e1, r1)" by (cases "process_image ext cl cfg rid k f")
  obtain e2 r2 where q: "process_files ext cl cfg rid (Suc k) fs = (e2, r2)"
    by (cases "process_files ext cl cfg rid (Suc k) fs")
  from Cons.prems(1) p q have "set evs \<subseteq> set e1 \<union> set e2"
    by (auto split: sum.splits prod.splits)
  with Cons.prems(2) consider "ev \<in> set e1" | "ev \<in> set e2" by blast
  then show ?case
  proof cases
    case 1
    with p have "ev \<in> set (fst (process_image ext cl cfg rid (k + 0) ((f # fs) ! 0)))" by simp
    then show ?thesis by blast
  next
    case 2
    from Cons.IH [OF q 2] obtain j where j: "j < length fs"
      and m: "ev \<in> set (fst (process_image ext cl cfg rid (Suc k + j) (fs ! j)))" by blast
    then have "Suc j < length (f # fs)"
      and "ev \<in> set (fst (process_image ext cl cfg rid (k + Suc j) ((f # fs) ! Suc j)))"
      by simp_all
    then show ?thesis by blast
  qed
qed

section \<open>Count bounds, thermal images and outcome filenames\<close>

text \<open>
  Claim C9: for every request whose number of images exceeds the configured maximum or
  falls below the configured minimum, the handler raises \<open>ValidationError\<close> before any
  bytes are read or decoded: it has done nothing with any image.
\<close>

theorem count_bounds_checked_first:
  assumes "int (length (request_files rq)) > max_images cfg
           \<or> int (length (request_files rq)) < min_images cfg"
  shows "fst (ai_enhanced_fire_detect ext cl cfg request_id rq) = []
         \<and> (\<exists>reason. snd (ai_enhanced_fire_detect ext cl cfg request_id rq)
                         = Inl (ValidationError reason))"
  using assms by (auto simp: ai_enhanced_fire_detect_def Let_def)

theorem count_bounds_checked_first_witness:
  "int (length (request_files \<lparr>rq_images = [photo_upload, thermal_upload, photo_upload],
                               rq_image = []\<rparr>)) > max_images example_config
   \<and> ai_enhanced_fire_detect example_externals mock_client example_config ''req-1''
        \<lparr>rq_images = [photo_upload, thermal_upload, photo_upload], rq_image = []\<rparr>
      = ([], Inl (ValidationError (TooManyImages 2)))"
proof -
  let ?rq = "\<lparr>rq_images = [photo_upload, thermal_upload, photo_upload], rq_image = []\<rparr>"
  have a: "int (length (request_files ?rq)) > max_images example_config"
    by (simp add: request_files_def max_images_def example_config_def)
  then have "int (length (request_files ?rq)) > max_images example_config
           \<or> int (length (request_files ?rq)) < min_images example_config" by simp
  from count_bounds_checked_first [OF this, of example_externals mock_client "''req-1''"]
  have "fst (ai_enhanced_fire_detect example_externals mock_client example_config ''req-1'' ?rq) = []"
    by simp
  moreover have "snd (ai_enhanced_fire_detect example_externals mock_client example_config ''req-1'' ?rq)
      = Inl (ValidationError (TooManyImages 2))"
    by (simp add: ai_enhanced_fire_detect_def request_files_def max_images_def min_images_def
        example_config_def Let_def)
  ultimately have "ai_enhanced_fire_detect example_externals mock_client example_config ''req-1'' ?rq
      = ([], Inl (ValidationError (TooManyImages 2)))"
    by (simp add: prod_eq_iff)
  with a show ?thesis by simp
qed

text \<open>
  Claim C6: for every image classified as thermal, the handler does not invoke the
  vision-model client for that image (no client call and no posted request carries its
  position); when the request succeeds, the entry of that image has fire detected false,
  no confidence, the fixed summary and the source \<open>thermal-filter\<close>, and the image has
  its annotated entry.
\<close>

theorem thermal_images_skip_client:
  assumes run: "ai_enhanced_fire_detect ext cl cfg request_id rq = (evs, res)"
    and i: "i < length (request_files rq)"
    and th: "classified_thermal ext cfg (request_files rq ! i)"
  shows "(\<forall>ev \<in> set evs. event_index ev = Suc i \<longrightarrow> \<not> client_event ev)
         \<and> (\<forall>resp. res = Inr resp \<longrightarrow>
               r_fire_detected (resp_results resp ! i) = False
               \<and> r_confidence (resp_results resp ! i) = None
               \<and> r_source (resp_results resp ! i) = ''thermal-filter''
               \<and> r_analysis_summary (resp_results resp ! i)
                   = ''Thermal image detected and skipped from DashScope analysis.''
               \<and> i < length (resp_annotated_images resp)
               \<and> ann_filename (resp_annotated_images resp ! i)
                   = r_filename (resp_results resp ! i))"
proof (intro conjI ballI allI impI)
  fix ev assume ev: "ev \<in> set evs" and idx: "event_index ev = Suc i"
  obtain e r where pf: "process_files ext cl cfg request_id 1 (request_files rq) = (e, r)"
    by (cases "process_files ext cl cfg request_id 1 (request_files rq)")
  from run pf ev have "ev \<in> set e"
    by (auto simp: ai_enhanced_fire_detect_def Let_def split: if_splits sum.splits prod.splits)
  from process_files_events [OF pf this] obtain j where j: "j < length (request_files rq)"
    and m: "ev \<in> set (fst (process_image ext cl cfg request_id (1 + j) (request_files rq ! j)))"
    by blast
  from process_image_index [OF m] idx have "j = i" by simp
  with m th show "\<not> client_event ev" using process_image_thermal_events by blast
next
  fix resp assume res: "res = Inr resp"
  with run obtain e where pf: "process_files ext cl cfg request_id 1 (request_files rq)
      = (e, Inr (resp_results resp, resp_annotated_images resp))"
    by (auto simp: ai_enhanced_fire_detect_def Let_def split: if_splits sum.splits prod.splits)
  from process_files_results [OF pf] i
  have len: "length (resp_annotated_images resp) = length (request_files rq)"
    and p: "snd (process_image ext cl cfg request_id (1 + i) (request_files rq ! i))
              = Inr (resp_results resp ! i, resp_annotated_images resp ! i)"
    by simp_all
  then have "process_image ext cl cfg request_id (1 + i) (request_files rq ! i)
      = (fst (process_image ext cl cfg request_id (1 + i) (request_files rq ! i)),
         Inr (resp_results resp ! i, resp_annotated_images resp ! i))"
    by (simp add: prod_eq_iff)
  from process_image_thermal_result [OF th this] len i
  show "r_fire_detected (resp_results resp ! i) = False"
    and "r_confidence (resp_results resp ! i) = None"
    and "r_source (resp_results resp ! i) = ''thermal-filter''"
    and "r_analysis_summary (resp_results resp ! i)
           = ''Thermal image detected and skipped from DashScope analysis.''"
    and "i < length (resp_annotated_images resp)"
    and "ann_filename (resp_annotated_images resp ! i) = r_filename (resp_results resp ! i)"
    by simp_all
qed

text \<open>
  Claim C7, amended: for every request whose images all process successfully, the outcome
  list has the length of the input, in input order, and the filename of the outcome at each
  position is the sanitised form (\<open>secure_filename\<close>) of the declared filename of the
  input at that position, with \<open>image.jpg\<close> standing in for a missing one.
\<close>

theorem outcome_filenames:
  assumes run: "ai_enhanced_fire_detect ext cl cfg request_id rq = (evs, Inr resp)"
  shows "length (resp_results resp) = length (request_files rq)
         \<and> length (resp_annotated_images resp) = length (request_files rq)
         \<and> (\<forall>i < length (request_files rq).
               r_filename (resp_results resp ! i)
                 = ext_secure_filename ext (declared_filename (request_files rq ! i))
               \<and> ann_filename (resp_annotated_images resp ! i)
                 = ext_secure_filename ext (declared_filename (request_files rq ! i)))"
proof -
  from run obtain e where pf: "process_files ext cl cfg request_id 1 (request_files rq)
      = (e, Inr (resp_results resp, resp_annotated_images resp))"
    by (auto simp: ai_enhanced_fire_detect_def Let_def split: if_splits sum.splits prod.splits)
  from process_files_results [OF pf]
  have len: "length (resp_results resp) = length (request_files rq)"
      "length (resp_annotated_images resp) = length (request_files rq)"
    and p: "\<forall>j < length (request_files rq).
              snd (process_image ext cl cfg request_id (1 + j) (request_files rq ! j))
                = Inr (resp_results resp ! j, resp_annotated_images resp ! j)"
    by simp_all
  have "r_filename (resp_results resp ! i)
          = ext_secure_filename ext (declared_filename (request_files rq ! i))
        \<and> ann_filename (resp_annotated_images resp ! i)
          = ext_secure_filename ext (declared_filename (request_files rq ! i))"
    if "i < length (request_files rq)" for i
  proof -
    from p that have "snd (process_image ext cl cfg request_id (1 + i) (request_files rq ! i))
                = Inr (resp_results resp ! i, resp_annotated_images resp ! i)" by blast
    then have "process_image ext cl cfg request_id (1 + i) (request_files rq ! i)
      = (fst (process_image ext cl cfg request_id (1 + i) (request_files rq ! i)),
         Inr (resp_results resp ! i, resp_annotated_images resp ! i))"
      by (simp add: prod_eq_iff)
    then show ?thesis by (rule process_image_filename)
  qed
  with len show ?thesis by blast
qed

section \<open>A request of two images\<close>

lemma secure_photo: "werkzeug_secure_filename ''my photo.jpg'' = ''my_photo.jpg''"
  by code_simp

lemma secure_scan: "werkzeug_secure_filename ''scan.png'' = ''scan.png''"
  by code_simp

lemma lower_jpeg: "str_lower ''image/jpeg'' = ''image/jpeg''" "str_lower ''JPEG'' = ''jpeg''"
  "str_lower ''image/png'' = ''image/png''" "str_lower ''PNG'' = ''png''"
  by code_simp+

lemma grey_thermal:
  "detect_thermal documented_rgb2hsv (RGBArray [[(90, 90, 90), (200, 200, 200)]]) = Inr True"
proof -
  let ?rows = "[[(90, 90, 90), (200, 200, 200)]] :: rgb list list"
  have d: "downsample 512 ?rows = ?rows"
    by (simp add: downsample_def array_height_def array_width_def)
  have ne: "concat (downsample 512 ?rows) \<noteq> []" by (simp add: d)
  have "\<forall>p \<in> set (concat (downsample 512 ?rows)). desaturated p"
    by (simp add: d desaturated_def)
  with documented_grey have "mean_saturation documented_rgb2hsv (concat (downsample 512 ?rows)) = 0"
    by (rule mean_saturation_grey)
  with detect_thermal_grid [OF ne, of documented_rgb2hsv] show ?thesis by simp
qed

lemma prepare_photo:
  "prepare_image (ext_secure_filename example_externals) (ext_image_open example_externals)
     (ext_cvtColor example_externals) photo_upload
     (ALLOWED_MIME_TYPES example_config) (MAX_CONTENT_LENGTH example_config)
   = ([ReadBytes, DecodeImage],
      Inr \<lparr>prep_filename = ''my_photo.jpg'', prep_content_type = ''image/jpeg'',
            prep_image_format = ''jpeg'', prep_width = 2, prep_height = 1,
            prep_image = example_image, prep_raw_bytes = [1, 2, 3], prep_is_thermal = False,
            prep_fire_probability =
              estimate_fire_probability documented_rgb2hsv
                (RGBArray [[(255, 0, 0), (0, 60, 0)]])\<rparr>)"
  by (simp add: prepare_image_def Let_def photo_upload_def declared_filename_def secure_photo
      example_config_def example_externals_def lower_jpeg example_image_def example_not_thermal
      array_width_def array_height_def)

lemma prepare_thermal:
  "prepare_image (ext_secure_filename example_externals) (ext_image_open example_externals)
     (ext_cvtColor example_externals) thermal_upload
     (ALLOWED_MIME_TYPES example_config) (MAX_CONTENT_LENGTH example_config)
   = ([ReadBytes, DecodeImage],
      Inr \<lparr>prep_filename = ''scan.png'', prep_content_type = ''image/png'',
            prep_image_format = ''png'', prep_width = 2, prep_height = 1,
            prep_image = grey_image, prep_raw_bytes = [0, 2, 3], prep_is_thermal = True,
            prep_fire_probability =
              estimate_fire_probability documented_rgb2hsv
                (RGBArray [[(90, 90, 90), (200, 200, 200)]])\<rparr>)"
  by (simp add: prepare_image_def Let_def thermal_upload_def declared_filename_def secure_scan
      example_config_def example_externals_def lower_jpeg grey_image_def grey_thermal
      array_width_def array_height_def)

lemma thermal_classified: "classified_thermal example_externals example_config thermal_upload"
  by (simp add: classified_thermal_def prepare_thermal)

lemma process_photo:
  "fst (process_image example_externals mock_client example_config ''req-1'' k photo_upload)
     = [FileIO k ReadBytes, FileIO k DecodeImage, ClientCall k, AnnotateImage k]"
  "\<not> isl (snd (process_image example_externals mock_client example_config ''req-1'' k photo_upload))"
  "r_filename (fst (projr (snd (process_image example_externals mock_client example_config
      ''req-1'' k photo_upload)))) = ''my_photo.jpg''"
  "r_source (fst (projr (snd (process_image example_externals mock_client example_config
      ''req-1'' k photo_upload)))) = ''dashscope''"
  by (simp_all add: process_image_def prepare_photo analyze_image_def mock_client_def
      example_client_def api_key_missing_def Let_def)

lemma process_thermal:
  "fst (process_image example_externals mock_client example_config ''req-1'' k thermal_upload)
     = [FileIO k ReadBytes, FileIO k DecodeImage, AnnotateImage k]"
  "\<not> isl (snd (process_image example_externals mock_client example_config ''req-1'' k thermal_upload))"
  "r_filename (fst (projr (snd (process_image example_externals mock_client example_config
      ''req-1'' k thermal_upload)))) = ''scan.png''"
  "r_source (fst (projr (snd (process_image example_externals mock_client example_config
      ''req-1'' k thermal_upload)))) = ''thermal-filter''"
  by (simp_all add: process_image_def prepare_thermal Let_def)

lemma process_files_Cons_ok:
  assumes "\<not> isl (snd (process_image ext cl cfg rid k f))"
  shows "process_files ext cl cfg rid k (f # fs)
           = (case process_files ext cl cfg rid (Suc k) fs of
                (evs', Inl e) \<Rightarrow> (fst (process_image ext cl cfg rid k f) @ evs', Inl e)
              | (evs', Inr (rs, as)) \<Rightarrow>
                  (fst (process_image ext cl cfg rid k f) @ evs',
                   Inr (fst (projr (snd (process_image ext cl cfg rid k f))) # rs,
                        snd (projr (snd (process_image ext cl cfg rid k f))) # as)))"
proof -
  obtain e r where p: "process_image ext cl cfg rid k f = (e, r)"
    by (cases "process_image ext cl cfg rid k f")
  with assms obtain entry ann where "r = Inr (entry, ann)" by (cases r) auto
  with p show ?thesis by (simp split: prod.splits sum.splits)
qed

lemma example_run:
  "fst (ai_enhanced_fire_detect example_externals mock_client example_config ''req-1''
          \<lparr>rq_images = [photo_upload, thermal_upload], rq_image = []\<rparr>)
     = [FileIO 1 ReadBytes, FileIO 1 DecodeImage, ClientCall 1, AnnotateImage 1,
        FileIO 2 ReadBytes, FileIO 2 DecodeImage, AnnotateImage 2]"
  "\<not> isl (snd (ai_enhanced_fire_detect example_externals mock_client example_config ''req-1''
          \<lparr>rq_images = [photo_upload, thermal_upload], rq_image = []\<rparr>))"
  "map r_filename (resp_results (projr (snd (ai_enhanced_fire_detect example_externals
          mock_client example_config ''req-1''
          \<lparr>rq_images = [photo_upload, thermal_upload], rq_image = []\<rparr>))))
     = [''my_photo.jpg'', ''scan.png'']"
  "map r_source (resp_results (projr (snd (ai_enhanced_fire_detect example_externals
          mock_client example_config ''req-1''
          \<lparr>rq_images = [photo_upload, thermal_upload], rq_image = []\<rparr>))))
     = [''dashscope'', ''thermal-filter'']"
  by (simp_all add: ai_enhanced_fire_detect_def request_files_def min_images_def max_images_def
      example_config_def [THEN arg_cong [where f = MAX_IMAGES_PER_REQUEST]]
      example_config_def [THEN arg_cong [where f = MIN_IMAGES_PER_REQUEST]]
      Let_def process_files_Cons_ok process_photo process_thermal del: process_files.simps(2))

lemma single_run:
  "\<not> isl (snd (ai_enhanced_fire_detect example_externals mock_client example_config ''req-1''
          \<lparr>rq_images = [photo_upload], rq_image = []\<rparr>))"
  "map r_filename (resp_results (projr (snd (ai_enhanced_fire_detect example_externals
          mock_client example_config ''req-1''
          \<lparr>rq_images = [photo_upload], rq_image = []\<rparr>))))
     = [''my_photo.jpg'']"
  by (simp_all add: ai_enhanced_fire_detect_def request_files_def min_images_def max_images_def
      example_config_def [THEN arg_cong [where f = MAX_IMAGES_PER_REQUEST]]
      example_config_def [THEN arg_cong [where f = MIN_IMAGES_PER_REQUEST]]
      Let_def process_files_Cons_ok process_photo del: process_files.simps(2))

text \<open>
  Claim C7, as stated: the filename of each outcome equals the declared filename of its
  input. It does not: an image declared as \<open>my photo.jpg\<close> processes successfully and
  its outcome is named \<open>my_photo.jpg\<close>, since \<open>prepare_image\<close> passes the declared name
  through \<open>secure_filename\<close>.
\<close>

theorem outcome_filename_declared_counterexample:
  "\<not> isl (snd (ai_enhanced_fire_detect example_externals mock_client example_config ''req-1''
          \<lparr>rq_images = [photo_upload], rq_image = []\<rparr>))
   \<and> map r_filename (resp_results (projr (snd (ai_enhanced_fire_detect example_externals
          mock_client example_config ''req-1''
          \<lparr>rq_images = [photo_upload], rq_image = []\<rparr>))))
      = [''my_photo.jpg'']
   \<and> map up_filename (request_files \<lparr>rq_images = [photo_upload], rq_image = []\<rparr>)
      = [Some ''my photo.jpg'']"
proof (intro conjI)
  show "map up_filename (request_files \<lparr>rq_images = [photo_upload], rq_image = []\<rparr>)
      = [Some ''my photo.jpg'']"
    by (simp add: request_files_def photo_upload_def)
qed (rule single_run)+

theorem outcome_filenames_witness:
  "\<not> isl (snd (ai_enhanced_fire_detect example_externals mock_client example_config ''req-1''
          \<lparr>rq_images = [photo_upload, thermal_upload], rq_image = []\<rparr>))
   \<and> length (resp_results (projr (snd (ai_enhanced_fire_detect example_externals mock_client
          example_config ''req-1''
          \<lparr>rq_images = [photo_upload, thermal_upload], rq_image = []\<rparr>)))) = 2
   \<and> r_filename (resp_results (projr (snd (ai_enhanced_fire_detect example_externals
          mock_client example_config ''req-1''
          \<lparr>rq_images = [photo_upload, thermal_upload], rq_image = []\<rparr>))) ! 0)
      = werkzeug_secure_filename ''my photo.jpg''"
proof -
  let ?rq = "\<lparr>rq_images = [photo_upload, thermal_upload], rq_image = []\<rparr>"
  let ?run = "ai_enhanced_fire_detect example_externals mock_client example_config ''req-1'' ?rq"
  have ok: "\<not> isl (snd ?run)" by (rule example_run(2))
  then have run: "?run = (fst ?run, Inr (projr (snd ?run)))"
    by (simp add: prod_eq_iff)
  have files: "request_files ?rq = [photo_upload, thermal_upload]"
    by (simp add: request_files_def)
  note th = outcome_filenames [OF run]
  from th files have len: "length (resp_results (projr (snd ?run))) = 2" by simp
  from th have "\<forall>i < length (request_files ?rq).
      r_filename (resp_results (projr (snd ?run)) ! i)
        = ext_secure_filename example_externals (declared_filename (request_files ?rq ! i))"
    by blast
  with files have "r_filename (resp_results (projr (snd ?run)) ! 0)
        = ext_secure_filename example_externals (declared_filename photo_upload)"
    by simp
  then have "r_filename (resp_results (projr (snd ?run)) ! 0)
        = werkzeug_secure_filename ''my photo.jpg''"
    by (simp add: example_externals_def declared_filename_def photo_upload_def)
  with ok len show ?thesis by simp
qed

theorem thermal_images_skip_client_witness:
  "classified_thermal example_externals example_config
     (request_files \<lparr>rq_images = [photo_upload, thermal_upload], rq_image = []\<rparr> ! 1)
   \<and> \<not> list_ex (\<lambda>ev. event_index ev = 2 \<and> client_event ev)
         (fst (ai_enhanced_fire_detect example_externals mock_client example_config ''req-1''
                \<lparr>rq_images = [photo_upload, thermal_upload], rq_image = []\<rparr>))
   \<and> list_ex client_event
         (fst (ai_enhanced_fire_detect example_externals mock_client example_config ''req-1''
                \<lparr>rq_images = [photo_upload, thermal_upload], rq_image = []\<rparr>))
   \<and> r_source (resp_results (projr (snd (ai_enhanced_fire_detect example_externals
          mock_client example_config ''req-1''
          \<lparr>rq_images = [photo_upload, thermal_upload], rq_image = []\<rparr>))) ! 1)
      = ''thermal-filter''
   \<and> r_fire_detected (resp_results (projr (snd (ai_enhanced_fire_detect example_externals
          mock_client example_config ''req-1''
          \<lparr>rq_images = [photo_upload, thermal_upload], rq_image = []\<rparr>))) ! 1) = False"
proof -
  let ?rq = "\<lparr>rq_images = [photo_upload, thermal_upload], rq_image = []\<rparr>"
  let ?run = "ai_enhanced_fire_detect example_externals mock_client example_config ''req-1'' ?rq"
  have ok: "\<not> isl (snd ?run)" by (rule example_run(2))
  then have res: "snd ?run = Inr (projr (snd ?run))" by simp
  have run: "?run = (fst ?run, snd ?run)" by simp
  have files: "request_files ?rq = [photo_upload, thermal_upload]"
    by (simp add: request_files_def)
  have i: "1 < length (request_files ?rq)" by (simp add: files)
  have th: "classified_thermal example_externals example_config (request_files ?rq ! 1)"
    by (simp add: files thermal_classified)
  note t = thermal_images_skip_client [OF run i th]
  from t have a: "\<forall>ev \<in> set (fst ?run). event_index ev = Suc 1 \<longrightarrow> \<not> client_event ev"
    by (rule conjunct1)
  then have a': "\<not> list_ex (\<lambda>ev. event_index ev = 2 \<and> client_event ev) (fst ?run)"
    by (auto simp: list_ex_iff)
  from t res have b: "r_fire_detected (resp_results (projr (snd ?run)) ! 1) = False
      \<and> r_source (resp_results (projr (snd ?run)) ! 1) = ''thermal-filter''"
    by blast
  have c: "list_ex client_event (fst ?run)"
    by (simp add: example_run(1) client_event_def)
  from th a' b c show ?thesis by simp
qed

end
